theory Spec2Isabelle
  imports Main "HOL-Library.Word" "HOL-Library.Multiset"
begin

section \<open>Game install detection (gui/state/game/detection/generic.cpp)\<close>

subsection \<open>Data model\<close>

text \<open>
  The enumerations \<open>GameId\<close>, \<open>GameType\<close> and \<open>InstallSource\<close> are declared in headers
  that are not part of the sources at hand; their enumerators are the case labels the
  switch statements of generic.cpp name. A C++ enumeration object can hold a value that
  is none of its enumerators, and every switch over them has a \<open>default:\<close> branch that
  throws; \<open>GameId_other n\<close> and \<open>GameType_other n\<close> stand for those values, so that the
  throwing branches are branches of the model.
\<close>

datatype GameId =
    GameId_tes3
  | GameId_tes4
  | GameId_nehrim
  | GameId_tes5
  | GameId_enderal
  | GameId_tes5se
  | GameId_enderalse
  | GameId_tes5vr
  | GameId_fo3
  | GameId_fonv
  | GameId_fo4
  | GameId_fo4vr
  | GameId_other nat

datatype GameType =
    GameType_tes3
  | GameType_tes4
  | GameType_tes5
  | GameType_tes5se
  | GameType_tes5vr
  | GameType_fo3
  | GameType_fonv
  | GameType_fo4
  | GameType_fo4vr
  | GameType_other nat

datatype InstallSource = steam | gog | epic | microsoft | unknown

text \<open>
  A \<open>std::filesystem::path\<close> is the list of its components; \<open>p / name\<close> appends one
  component (every name appended in generic.cpp is a single relative file name).
\<close>

type_synonym path = "string list"

definition path_append :: "path \<Rightarrow> string \<Rightarrow> path" where
  "path_append p name = p @ [name]"

text \<open>
  Modelled from the spec: the declaration of \<open>GameInstall\<close> (game_install.h) is not among
  the sources. The spec gives it an identity, a source, an install path and an optional
  local-data path; an aggregate initialiser with three values leaves the fourth member
  value-initialised, which is \<open>None\<close> here.
\<close>

record GameInstall =
  gameId :: GameId
  source :: InstallSource
  installPath :: path
  localPath :: "path option"

text \<open>
  Modelled from the spec: \<open>RegistryValue\<close> (registry.h) is a hive, a key and a value
  name, and the registry capability answers a lookup with an optional path.
\<close>

record RegistryValue =
  hive :: string
  key :: string
  valueName :: string

type_synonym RegistryInterface = "RegistryValue \<Rightarrow> path option"

definition ReadPathFromRegistry :: "RegistryInterface \<Rightarrow> RegistryValue \<Rightarrow> path option" where
  "ReadPathFromRegistry registry v = registry v"

text \<open>The accessors of \<open>GameSettings\<close> that \<open>DetectGameInstall\<close> reads.\<close>

record GameSettings =
  Type :: GameType
  Master :: string
  GamePath :: path
  GameLocalPath :: path

text \<open>
  What the file system answers when \<open>std::filesystem::exists\<close> asks for the status of a
  path: the file is there, it is not, or the query fails with an operating-system error
  (a symbolic link that loops, a directory that may not be searched), of which
  \<open>status_error\<close> holds the message.
\<close>

datatype file_status = status_present | status_absent | status_error string

text \<open>
  The world generic.cpp runs in: the file system, and the functions of other translation
  units that it calls (common.h, gog.h), taken as parameters.
\<close>

record world =
  fs :: "path \<Rightarrow> file_status"
  IsValidGamePath :: "GameType \<Rightarrow> string \<Rightarrow> path \<Rightarrow> bool"
  GetGameType :: "GameId \<Rightarrow> GameType"
  GetMasterFilename :: "GameId \<Rightarrow> string"
  GetGogGameIds :: "GameId \<Rightarrow> string list"

subsection \<open>Exceptions and file-system probes\<close>

datatype error = logic_error string | runtime_error string | filesystem_error string

text \<open>
  A computation of generic.cpp yields the list of paths it passed to
  \<open>std::filesystem::exists\<close>, in call order, and either the exception it threw or its
  value. A throw ends the computation: what follows it probes nothing. generic.cpp calls
  the overload of \<open>exists\<close> that throws \<open>std::filesystem::filesystem_error\<close> when the
  status query fails, and catches nothing: the exception ends the computation like any
  other. What the validator and the registry do on their own is not part of the model.
\<close>

type_synonym 'a probing = "path list \<times> (error + 'a)"

definition ret :: "'a \<Rightarrow> 'a probing" where
  "ret x = ([], Inr x)"

definition throw :: "error \<Rightarrow> 'a probing" where
  "throw e = ([], Inl e)"

definition bind :: "'a probing \<Rightarrow> ('a \<Rightarrow> 'b probing) \<Rightarrow> 'b probing" where
  "bind m f =
     (case m of
        (ps, Inl e) \<Rightarrow> (ps, Inl e)
      | (ps, Inr x) \<Rightarrow> (case f x of (qs, r) \<Rightarrow> (ps @ qs, r)))"

definition exists_path :: "world \<Rightarrow> path \<Rightarrow> bool probing" where
  "exists_path w p =
     ([p],
      case fs w p of
        status_present \<Rightarrow> Inr True
      | status_absent \<Rightarrow> Inr False
      | status_error what \<Rightarrow> Inl (filesystem_error what))"

definition probes :: "'a probing \<Rightarrow> path list" where
  "probes m = fst m"

definition outcome :: "'a probing \<Rightarrow> error + 'a" where
  "outcome m = snd m"

subsection \<open>The registry-key table\<close>

definition backslash :: string where
  "backslash = [CHR 0x5C]"

fun reg_key :: "string list \<Rightarrow> string" where
  "reg_key [] = []"
| "reg_key [s] = s"
| "reg_key (s # t # ss) = s @ backslash @ reg_key (t # ss)"

definition bethesda_value :: "string \<Rightarrow> RegistryValue" where
  "bethesda_value game =
     \<lparr>hive = ''HKEY_LOCAL_MACHINE'',
      key = reg_key [''Software'', ''Bethesda Softworks'', game],
      valueName = ''Installed Path''\<rparr>"

fun GetRegistryValue :: "GameId \<Rightarrow> error + RegistryValue" where
  "GetRegistryValue GameId_tes3 = Inr (bethesda_value ''Morrowind'')"
| "GetRegistryValue GameId_tes4 = Inr (bethesda_value ''Oblivion'')"
| "GetRegistryValue GameId_nehrim =
     Inr \<lparr>hive = ''HKEY_LOCAL_MACHINE'',
          key = reg_key [''Software'', ''Microsoft'', ''Windows'', ''CurrentVersion'',
                         ''Uninstall'', ''Nehrim - At Fate's Edge_is1''],
          valueName = ''InstallLocation''\<rparr>"
| "GetRegistryValue GameId_tes5 = Inr (bethesda_value ''Skyrim'')"
| "GetRegistryValue GameId_enderal =
     Inr \<lparr>hive = ''HKEY_CURRENT_USER'',
          key = reg_key [''SOFTWARE'', ''SureAI'', ''Enderal''],
          valueName = ''Install_Path''\<rparr>"
| "GetRegistryValue GameId_tes5se = Inr (bethesda_value ''Skyrim Special Edition'')"
| "GetRegistryValue GameId_enderalse =
     Inr \<lparr>hive = ''HKEY_CURRENT_USER'',
          key = reg_key [''SOFTWARE'', ''SureAI'', ''EnderalSE''],
          valueName = ''Install_Path''\<rparr>"
| "GetRegistryValue GameId_tes5vr = Inr (bethesda_value ''Skyrim VR'')"
| "GetRegistryValue GameId_fo3 = Inr (bethesda_value ''Fallout3'')"
| "GetRegistryValue GameId_fonv = Inr (bethesda_value ''FalloutNV'')"
| "GetRegistryValue GameId_fo4 = Inr (bethesda_value ''Fallout4'')"
| "GetRegistryValue GameId_fo4vr = Inr (bethesda_value ''Fallout 4 VR'')"
| "GetRegistryValue (GameId_other n) = Inl (logic_error ''Unrecognised game ID'')"

subsection \<open>The install-source classifiers\<close>

fun IsSteamInstall :: "world \<Rightarrow> GameId \<Rightarrow> path \<Rightarrow> bool probing" where
  "IsSteamInstall w GameId_tes3 dir =
     exists_path w (path_append dir ''steam_autocloud.vdf'')"
| "IsSteamInstall w GameId_nehrim dir =
     exists_path w (path_append dir ''steam_api.dll'')"
| "IsSteamInstall w GameId_tes5 dir = ret True"
| "IsSteamInstall w GameId_tes5vr dir = ret True"
| "IsSteamInstall w GameId_fo4vr dir = ret True"
| "IsSteamInstall w GameId_tes4 dir =
     exists_path w (path_append dir ''installscript.vdf'')"
| "IsSteamInstall w GameId_tes5se dir =
     exists_path w (path_append dir ''installscript.vdf'')"
| "IsSteamInstall w GameId_enderal dir =
     exists_path w (path_append dir ''installscript.vdf'')"
| "IsSteamInstall w GameId_enderalse dir =
     exists_path w (path_append dir ''installscript.vdf'')"
| "IsSteamInstall w GameId_fo3 dir =
     exists_path w (path_append dir ''installscript.vdf'')"
| "IsSteamInstall w GameId_fonv dir =
     exists_path w (path_append dir ''installscript.vdf'')"
| "IsSteamInstall w GameId_fo4 dir =
     exists_path w (path_append dir ''installscript.vdf'')"
| "IsSteamInstall w (GameId_other n) dir =
     throw (logic_error ''Unrecognised game ID'')"

text \<open>The loop of \<open>IsGogInstall\<close> over the GOG catalogue ids of the game.\<close>

fun gog_icon_loop :: "world \<Rightarrow> path \<Rightarrow> string list \<Rightarrow> bool probing" where
  "gog_icon_loop w dir [] = ret False"
| "gog_icon_loop w dir (gogGameId # rest) =
     bind (exists_path w (path_append dir (''goggame-'' @ gogGameId @ ''.ico'')))
       (\<lambda>found. if found then ret True else gog_icon_loop w dir rest)"

definition IsGogInstall :: "world \<Rightarrow> GameId \<Rightarrow> path \<Rightarrow> bool probing" where
  "IsGogInstall w g dir = gog_icon_loop w dir (GetGogGameIds w g)"

definition IsEpicInstall :: "world \<Rightarrow> path \<Rightarrow> bool probing" where
  "IsEpicInstall w dir = exists_path w (path_append dir ''.egstore'')"

definition IsMicrosoftInstall :: "world \<Rightarrow> path \<Rightarrow> bool probing" where
  "IsMicrosoftInstall w dir =
     exists_path w (path_append dir ''appxmanifest.xml'')"

subsection \<open>The install locator\<close>

definition FindGameInstallInRegistry ::
  "world \<Rightarrow> RegistryInterface \<Rightarrow> GameId \<Rightarrow> GameInstall option probing" where
  "FindGameInstallInRegistry w registry g =
     (case GetRegistryValue g of
        Inl e \<Rightarrow> throw e
      | Inr v \<Rightarrow>
          (case ReadPathFromRegistry registry v of
             None \<Rightarrow> ret None
           | Some p \<Rightarrow>
               if IsValidGamePath w (GetGameType w g) (GetMasterFilename w g) p then
                 bind (IsSteamInstall w g p) (\<lambda>isSteam.
                   if isSteam then
                     ret (Some \<lparr>gameId = g, source = steam, installPath = p, localPath = None\<rparr>)
                   else
                     bind (IsGogInstall w g p) (\<lambda>isGog.
                       if isGog then
                         ret (Some \<lparr>gameId = g, source = gog, installPath = p,
                                    localPath = None\<rparr>)
                       else
                         ret (Some \<lparr>gameId = g, source = unknown, installPath = p,
                                    localPath = None\<rparr>)))
               else ret None))"

definition sibling_path :: path where
  "sibling_path = [''..'']"

definition FindSiblingGameInstall :: "world \<Rightarrow> GameId \<Rightarrow> GameInstall option probing" where
  "FindSiblingGameInstall w g =
     (if \<not> IsValidGamePath w (GetGameType w g) (GetMasterFilename w g) sibling_path then
        ret None
      else
        bind (IsSteamInstall w g sibling_path) (\<lambda>isSteam.
          if isSteam then
            ret (Some \<lparr>gameId = g, source = steam, installPath = sibling_path,
                       localPath = None\<rparr>)
          else
            bind (IsGogInstall w g sibling_path) (\<lambda>isGog.
              if isGog then
                ret (Some \<lparr>gameId = g, source = gog, installPath = sibling_path,
                           localPath = None\<rparr>)
              else
                bind (IsEpicInstall w sibling_path) (\<lambda>isEpic.
                  if isEpic then
                    ret (Some \<lparr>gameId = g, source = epic, installPath = sibling_path,
                               localPath = None\<rparr>)
                  else
                    bind (IsMicrosoftInstall w sibling_path) (\<lambda>isMicrosoft.
                      if isMicrosoft then
                        ret (Some \<lparr>gameId = g, source = microsoft,
                                   installPath = sibling_path, localPath = None\<rparr>)
                      else
                        ret (Some \<lparr>gameId = g, source = unknown,
                                   installPath = sibling_path, localPath = None\<rparr>))))))"

fun DetectGameId :: "world \<Rightarrow> GameType \<Rightarrow> path \<Rightarrow> GameId probing" where
  "DetectGameId w GameType_tes3 dir = ret GameId_tes3"
| "DetectGameId w GameType_tes4 dir =
     bind (exists_path w (path_append dir ''NehrimLauncher.exe''))
       (\<lambda>found. ret (if found then GameId_nehrim else GameId_tes4))"
| "DetectGameId w GameType_tes5 dir =
     bind (exists_path w (path_append dir ''Enderal Launcher.exe''))
       (\<lambda>found. ret (if found then GameId_enderal else GameId_tes5))"
| "DetectGameId w GameType_tes5se dir =
     bind (exists_path w (path_append dir ''Enderal Launcher.exe''))
       (\<lambda>found. ret (if found then GameId_enderalse else GameId_tes5se))"
| "DetectGameId w GameType_tes5vr dir = ret GameId_tes5vr"
| "DetectGameId w GameType_fo3 dir = ret GameId_fo3"
| "DetectGameId w GameType_fonv dir = ret GameId_fonv"
| "DetectGameId w GameType_fo4 dir = ret GameId_fo4"
| "DetectGameId w GameType_fo4vr dir = ret GameId_fo4vr"
| "DetectGameId w (GameType_other n) dir =
     throw (logic_error ''Unrecognised game ID'')"

definition option_to_list :: "'a option \<Rightarrow> 'a list" where
  "option_to_list x = (case x of None \<Rightarrow> [] | Some v \<Rightarrow> [v])"

definition FindGameInstalls ::
  "world \<Rightarrow> RegistryInterface \<Rightarrow> GameId \<Rightarrow> GameInstall list probing" where
  "FindGameInstalls w registry g =
     bind (FindSiblingGameInstall w g) (\<lambda>sibling.
       bind (FindGameInstallInRegistry w registry g) (\<lambda>registryInstall.
         ret (option_to_list sibling @ option_to_list registryInstall)))"

definition DetectGameInstall :: "world \<Rightarrow> GameSettings \<Rightarrow> GameInstall option probing" where
  "DetectGameInstall w settings =
     (if \<not> IsValidGamePath w (Type settings) (Master settings) (GamePath settings) then
        ret None
      else
        bind (DetectGameId w (Type settings) (GamePath settings)) (\<lambda>g.
          bind (IsSteamInstall w g (GamePath settings)) (\<lambda>isSteam.
            if isSteam then
              ret (Some \<lparr>gameId = g, source = steam, installPath = GamePath settings,
                         localPath = Some (GameLocalPath settings)\<rparr>)
            else
              bind (IsGogInstall w g (GamePath settings)) (\<lambda>isGog.
                if isGog then
                  ret (Some \<lparr>gameId = g, source = gog, installPath = GamePath settings,
                             localPath = Some (GameLocalPath settings)\<rparr>)
                else
                  bind (IsEpicInstall w (GamePath settings)) (\<lambda>isEpic.
                    if isEpic then
                      ret (Some \<lparr>gameId = g, source = epic,
                                 installPath = GamePath settings,
                                 localPath = Some (GameLocalPath settings)\<rparr>)
                    else
                      bind (IsMicrosoftInstall w (GamePath settings)) (\<lambda>isMicrosoft.
                        if isMicrosoft then
                          ret (Some \<lparr>gameId = g, source = microsoft,
                                     installPath = GamePath settings,
                                     localPath = Some (GameLocalPath settings)\<rparr>)
                        else
                          ret (Some \<lparr>gameId = g, source = unknown,
                                     installPath = GamePath settings,
                                     localPath = Some (GameLocalPath settings)\<rparr>)))))))"


subsection \<open>Recognised enumerators, and the priority list of the specification\<close>

text \<open>The values the switch statements name: everything but the \<open>default:\<close> branch.\<close>

fun recognised_id :: "GameId \<Rightarrow> bool" where
  "recognised_id (GameId_other n) = False"
| "recognised_id g = True"

fun recognised_type :: "GameType \<Rightarrow> bool" where
  "recognised_type (GameType_other n) = False"
| "recognised_type t = True"

text \<open>A classifier matches when it returns \<open>true\<close>.\<close>

definition matches :: "bool probing \<Rightarrow> bool" where
  "matches m = (outcome m = Inr True)"

text \<open>
  The specification's priority list, in its own words: the checks are tried in the order
  given, the first that matches names the source, and the source is \<open>unknown\<close> when none
  matches.
\<close>

fun first_match :: "(InstallSource \<times> bool) list \<Rightarrow> InstallSource" where
  "first_match [] = unknown"
| "first_match ((s, matched) # rest) = (if matched then s else first_match rest)"

definition four_way :: "world \<Rightarrow> GameId \<Rightarrow> path \<Rightarrow> InstallSource" where
  "four_way w g dir =
     first_match
       [(steam, matches (IsSteamInstall w g dir)),
        (gog, matches (IsGogInstall w g dir)),
        (epic, matches (IsEpicInstall w dir)),
        (microsoft, matches (IsMicrosoftInstall w dir))]"

definition two_way :: "world \<Rightarrow> GameId \<Rightarrow> path \<Rightarrow> InstallSource" where
  "two_way w g dir =
     first_match
       [(steam, matches (IsSteamInstall w g dir)),
        (gog, matches (IsGogInstall w g dir))]"

subsection \<open>Runs whose existence checks are all answered\<close>

fun answers :: "file_status \<Rightarrow> bool" where
  "answers (status_error what) = False"
| "answers status_present = True"
| "answers status_absent = True"

text \<open>Every existence check the computation made was answered: none threw.\<close>

definition answered :: "world \<Rightarrow> 'a probing \<Rightarrow> bool" where
  "answered w m = list_all (\<lambda>p. answers (fs w p)) (probes m)"

text \<open>
  A computation that ends in an exception only where one of its existence checks
  fails, and then in that \<open>filesystem_error\<close>.
\<close>

definition fails_only_in_probes :: "world \<Rightarrow> 'a probing \<Rightarrow> bool" where
  "fails_only_in_probes w m =
     (if answered w m then (\<exists>x. outcome m = Inr x)
      else (\<exists>what. outcome m = Inl (filesystem_error what)))"

text \<open>
  The chain of the four checks, which \<open>FindSiblingGameInstall\<close> and \<open>DetectGameInstall\<close>
  both spell out, the one for the parent directory and no local path, the other for the
  configured paths.
\<close>

definition four_checks ::
  "world \<Rightarrow> GameId \<Rightarrow> path \<Rightarrow> path option \<Rightarrow> GameInstall option probing" where
  "four_checks w g dir lp =
     bind (IsSteamInstall w g dir) (\<lambda>isSteam.
       if isSteam then
         ret (Some \<lparr>gameId = g, source = steam, installPath = dir, localPath = lp\<rparr>)
       else
         bind (IsGogInstall w g dir) (\<lambda>isGog.
           if isGog then
             ret (Some \<lparr>gameId = g, source = gog, installPath = dir, localPath = lp\<rparr>)
           else
             bind (IsEpicInstall w dir) (\<lambda>isEpic.
               if isEpic then
                 ret (Some \<lparr>gameId = g, source = epic, installPath = dir, localPath = lp\<rparr>)
               else
                 bind (IsMicrosoftInstall w dir) (\<lambda>isMicrosoft.
                   if isMicrosoft then
                     ret (Some \<lparr>gameId = g, source = microsoft, installPath = dir,
                                localPath = lp\<rparr>)
                   else
                     ret (Some \<lparr>gameId = g, source = unknown, installPath = dir,
                                localPath = lp\<rparr>)))))"

subsection \<open>Example worlds\<close>

text \<open>
  Modelled from the spec: \<open>GetGameType\<close> (common.h) is not among the sources; every
  identity belongs to one family, a total-conversion variant to the family of its base
  game.
\<close>

fun family_of :: "GameId \<Rightarrow> GameType" where
  "family_of GameId_tes3 = GameType_tes3"
| "family_of GameId_tes4 = GameType_tes4"
| "family_of GameId_nehrim = GameType_tes4"
| "family_of GameId_tes5 = GameType_tes5"
| "family_of GameId_enderal = GameType_tes5"
| "family_of GameId_tes5se = GameType_tes5se"
| "family_of GameId_enderalse = GameType_tes5se"
| "family_of GameId_tes5vr = GameType_tes5vr"
| "family_of GameId_fo3 = GameType_fo3"
| "family_of GameId_fonv = GameType_fonv"
| "family_of GameId_fo4 = GameType_fo4"
| "family_of GameId_fo4vr = GameType_fo4vr"
| "family_of (GameId_other n) = GameType_other n"

text \<open>
  A world whose files are the ones listed, where every path is a valid install of every
  game, no game has a master file name of interest, and Oblivion has one GOG catalogue id.
\<close>

definition world_with :: "path list \<Rightarrow> world" where
  "world_with files =
     \<lparr>fs = (\<lambda>p. if p \<in> set files then status_present else status_absent),
      IsValidGamePath = (\<lambda>t m p. True),
      GetGameType = family_of,
      GetMasterFilename = (\<lambda>g. ''master.esm''),
      GetGogGameIds = (\<lambda>g. if g = GameId_tes4 then [''1458058109''] else [])\<rparr>"

text \<open>The same world with a validator that rejects every path.\<close>

definition invalid_world :: "path list \<Rightarrow> world" where
  "invalid_world files = (world_with files)\<lparr>IsValidGamePath := (\<lambda>t m p. False)\<rparr>"

text \<open>The same world, but the status of one path cannot be read: a link that loops.\<close>

definition world_failing_at :: "path list \<Rightarrow> path \<Rightarrow> world" where
  "world_failing_at files bad =
     (world_with files)
       \<lparr>fs := (\<lambda>p. if p = bad then status_error ''Too many levels of symbolic links''
                   else fs (world_with files) p)\<rparr>"

definition oblivion_settings :: GameSettings where
  "oblivion_settings =
     \<lparr>Type = GameType_tes4, Master = ''Oblivion.esm'', GamePath = [''C:'', ''Oblivion''],
      GameLocalPath = [''C:'', ''Local'', ''Oblivion'']\<rparr>"

definition registry_with :: "path \<Rightarrow> RegistryInterface" where
  "registry_with p = (\<lambda>v. Some p)"


section \<open>The load-order mapper (gui/state/game/game.h)\<close>

subsection \<open>Phase 1: collecting the tuples\<close>

text \<open>
  What \<open>MapFromLoadOrderData\<close> asks of the game and of a plugin: \<open>GetPlugin\<close> returns a
  pointer that may be null, \<open>IsPluginActive\<close> and \<open>IsLightPlugin\<close> return a flag.
\<close>

record 'p Game =
  GetPlugin :: "string \<Rightarrow> 'p option"
  IsPluginActive :: "string \<Rightarrow> bool"
  IsLightPlugin :: "'p \<Rightarrow> bool"

text \<open>
  The two counters and the index are of type \<open>short\<close>: 16 bits, read as a signed value
  by \<open>sint\<close>; \<open>++\<close> wraps around from 32767 to -32768.
\<close>

type_synonym short = "16 word"

type_synonym 'p LoadOrderTuple = "'p \<times> short option \<times> bool"

record 'p collected =
  data :: "'p LoadOrderTuple list"
  numberOfActiveLightPlugins :: short
  numberOfActiveNormalPlugins :: short

text \<open>One iteration of the first loop.\<close>

definition collect_step :: "'p Game \<Rightarrow> 'p collected \<Rightarrow> string \<Rightarrow> 'p collected" where
  "collect_step game st pluginName =
     (case GetPlugin game pluginName of
        None \<Rightarrow> st
      | Some plugin \<Rightarrow>
          (let isLight = IsLightPlugin game plugin;
               isActive = IsPluginActive game pluginName;
               numberOfActivePlugins =
                 (if isLight then numberOfActiveLightPlugins st
                  else numberOfActiveNormalPlugins st);
               activeLoadOrderIndex =
                 (if isActive then Some numberOfActivePlugins else None);
               pushed = st\<lparr>data := data st @ [(plugin, activeLoadOrderIndex, isActive)]\<rparr>
           in if isActive then
                (if isLight then
                   pushed\<lparr>numberOfActiveLightPlugins := numberOfActiveLightPlugins pushed + 1\<rparr>
                 else
                   pushed\<lparr>numberOfActiveNormalPlugins :=
                            numberOfActiveNormalPlugins pushed + 1\<rparr>)
              else pushed))"

definition collect :: "'p Game \<Rightarrow> string list \<Rightarrow> 'p collected" where
  "collect game loadOrder =
     foldl (collect_step game)
       \<lparr>data = [], numberOfActiveLightPlugins = 0, numberOfActiveNormalPlugins = 0\<rparr>
       loadOrder"

subsection \<open>Phase 2: the transformation\<close>

text \<open>
  A mapper either returns a value or throws a \<open>std::exception\<close>, of which \<open>Inl\<close> holds the
  message \<open>what()\<close>. A pure function of its arguments is a deterministic mapper. Objects
  thrown that are not a \<open>std::exception\<close> are not what the transformer catches and are
  outside this model.
\<close>

type_synonym ('p, 't) mapper = "'p \<Rightarrow> short option \<Rightarrow> bool \<Rightarrow> string + 't"

datatype 't MappedDataOrError = MappedData 't | ErrorMessage string

definition log_line :: "string \<Rightarrow> string" where
  "log_line what =
     ''Failed to map load order data to output type, exception is: '' @ what"

text \<open>
  The lambda \<open>transformer\<close>: the slot value, and the lines it hands to the logger
  (none when \<open>getLogger()\<close> returns null).
\<close>

definition transformer ::
  "bool \<Rightarrow> ('p, 't) mapper \<Rightarrow> 'p LoadOrderTuple \<Rightarrow> 't MappedDataOrError \<times> string list" where
  "transformer hasLogger mapper loadOrderTuple =
     (case loadOrderTuple of
        (plugin, activeLoadOrderIndex, isActive) \<Rightarrow>
          (case mapper plugin activeLoadOrderIndex isActive of
             Inr mappedData \<Rightarrow> (MappedData mappedData, [])
           | Inl what \<Rightarrow>
               (ErrorMessage what, if hasLogger then [log_line what] else [])))"

record 't transformed =
  maybeMappedData :: "'t MappedDataOrError list"
  logged :: "string list"

text \<open>
  \<open>std::transform\<close> with \<open>std::execution::par_unseq\<close> applies the transformer to each
  element once, in no fixed order, and writes the result to the output position of the
  same index. A schedule is the order in which the indices are served: a permutation of
  \<open>0..<n\<close>. The output vector is presized with \<open>n\<close> value-initialised variants, each
  holding the value-initialised \<open>T\<close>, here \<open>t0\<close>. The algorithm never serves an index
  outside the range, so \<open>transform_step\<close> means something for the indices of a valid
  schedule only, and every result below is about valid schedules.
\<close>

definition valid_schedule :: "nat \<Rightarrow> nat list \<Rightarrow> bool" where
  "valid_schedule n schedule = (mset schedule = mset [0..<n])"

definition transform_step ::
  "bool \<Rightarrow> ('p, 't) mapper \<Rightarrow> 'p LoadOrderTuple list \<Rightarrow> 't transformed \<Rightarrow> nat \<Rightarrow> 't transformed" where
  "transform_step hasLogger mapper dat st i =
     (case transformer hasLogger mapper (dat ! i) of
        (slot, entries) \<Rightarrow>
          \<lparr>maybeMappedData = (maybeMappedData st)[i := slot],
           logged = logged st @ entries\<rparr>)"

definition transform_par ::
  "bool \<Rightarrow> ('p, 't) mapper \<Rightarrow> 't \<Rightarrow> nat list \<Rightarrow> 'p LoadOrderTuple list \<Rightarrow> 't transformed" where
  "transform_par hasLogger mapper t0 schedule dat =
     foldl (transform_step hasLogger mapper dat)
       \<lparr>maybeMappedData = replicate (length dat) (MappedData t0), logged = []\<rparr>
       schedule"

subsection \<open>Phase 3: aggregation\<close>

fun aggregate :: "'t MappedDataOrError list \<Rightarrow> 't list \<Rightarrow> error + 't list" where
  "aggregate [] mappedData = Inr mappedData"
| "aggregate (MappedData v # rest) mappedData = aggregate rest (mappedData @ [v])"
| "aggregate (ErrorMessage msg # rest) mappedData = Inl (runtime_error msg)"

text \<open>The whole function: the lines logged, and the exception thrown or the vector returned.\<close>

definition MapFromLoadOrderData ::
  "bool \<Rightarrow> 't \<Rightarrow> nat list \<Rightarrow> 'p Game \<Rightarrow> string list \<Rightarrow> ('p, 't) mapper
     \<Rightarrow> string list \<times> (error + 't list)" where
  "MapFromLoadOrderData hasLogger t0 schedule game loadOrder mapper =
     (let dat = data (collect game loadOrder);
          st = transform_par hasLogger mapper t0 schedule dat
      in (logged st, aggregate (maybeMappedData st) []))"

subsection \<open>The specification's description of the three phases\<close>

text \<open>The names of the load order whose plugin is found, in order, each with its plugin.\<close>

definition found_plugins :: "'p Game \<Rightarrow> string list \<Rightarrow> (string \<times> 'p) list" where
  "found_plugins game loadOrder =
     concat (map (\<lambda>name. case GetPlugin game name of None \<Rightarrow> [] | Some p \<Rightarrow> [(name, p)])
               loadOrder)"

text \<open>
  The running count at position \<open>i\<close> of the found plugins: how many earlier found
  plugins are active and of the same kind (light or not) as the one at \<open>i\<close>.
\<close>

definition running_count :: "'p Game \<Rightarrow> (string \<times> 'p) list \<Rightarrow> nat \<Rightarrow> nat" where
  "running_count game found i =
     length (filter (\<lambda>(name, p). IsPluginActive game name \<and>
                       IsLightPlugin game p = IsLightPlugin game (snd (found ! i)))
               (take i found))"

text \<open>
  The tuple at position \<open>i\<close> whose index is the running count held in a \<open>short\<close>.
\<close>

definition counted_tuple :: "'p Game \<Rightarrow> (string \<times> 'p) list \<Rightarrow> nat \<Rightarrow> 'p LoadOrderTuple" where
  "counted_tuple game found i =
     (case found ! i of
        (name, p) \<Rightarrow>
          (p,
           if IsPluginActive game name then Some (word_of_nat (running_count game found i))
           else None,
           IsPluginActive game name))"

text \<open>An index equal to a count: present exactly when active, and then of that value.\<close>

definition index_is_count :: "short option \<Rightarrow> bool \<Rightarrow> nat \<Rightarrow> bool" where
  "index_is_count activeLoadOrderIndex isActive n =
     (case activeLoadOrderIndex of
        None \<Rightarrow> \<not> isActive
      | Some v \<Rightarrow> isActive \<and> sint v = int n)"

definition apply_mapper :: "('p, 't) mapper \<Rightarrow> 'p LoadOrderTuple \<Rightarrow> string + 't" where
  "apply_mapper mapper loadOrderTuple =
     (case loadOrderTuple of (plugin, activeLoadOrderIndex, isActive) \<Rightarrow>
        mapper plugin activeLoadOrderIndex isActive)"

text \<open>The messages of the failing applications and the values of the others, in order.\<close>

definition failures :: "('p, 't) mapper \<Rightarrow> 'p LoadOrderTuple list \<Rightarrow> string list" where
  "failures mapper dat =
     concat (map (\<lambda>t. case apply_mapper mapper t of Inl what \<Rightarrow> [what] | Inr v \<Rightarrow> []) dat)"

definition successes :: "('p, 't) mapper \<Rightarrow> 'p LoadOrderTuple list \<Rightarrow> 't list" where
  "successes mapper dat =
     concat (map (\<lambda>t. case apply_mapper mapper t of Inl what \<Rightarrow> [] | Inr v \<Rightarrow> [v]) dat)"

text \<open>The sequential, in-order application of the mapper: it stops at the first failure.\<close>

fun map_in_order :: "('p, 't) mapper \<Rightarrow> 'p LoadOrderTuple list \<Rightarrow> error + 't list" where
  "map_in_order mapper [] = Inr []"
| "map_in_order mapper (t # ts) =
     (case apply_mapper mapper t of
        Inl what \<Rightarrow> Inl (runtime_error what)
      | Inr v \<Rightarrow>
          (case map_in_order mapper ts of
             Inl e \<Rightarrow> Inl e
           | Inr vs \<Rightarrow> Inr (v # vs)))"

subsection \<open>Example games and mappers\<close>

text \<open>
  A game that knows every name but \<open>b.esp\<close>, whose plugins are their names, where every
  plugin is active but \<open>c.esp\<close>, and the light ones are the \<open>.esl\<close> files listed.
\<close>

definition small_game :: "string Game" where
  "small_game =
     \<lparr>GetPlugin = (\<lambda>name. if name = ''b.esp'' then None else Some name),
      IsPluginActive = (\<lambda>name. name \<noteq> ''c.esp''),
      IsLightPlugin = (\<lambda>p. p \<in> {''l1.esl'', ''l2.esl''})\<rparr>"

text \<open>A game where every name is an active plugin that is not light.\<close>

definition crowded_game :: "string Game" where
  "crowded_game =
     \<lparr>GetPlugin = (\<lambda>name. Some name),
      IsPluginActive = (\<lambda>name. True),
      IsLightPlugin = (\<lambda>p. False)\<rparr>"

text \<open>A mapper that returns the length of the plugin's name, and throws on \<open>bad.esp\<close>
  and \<open>worse.esp\<close> with the name as message.\<close>

definition name_length_mapper :: "(string, nat) mapper" where
  "name_length_mapper plugin activeLoadOrderIndex isActive =
     (if plugin = ''bad.esp'' \<or> plugin = ''worse.esp'' then Inl plugin
      else Inr (length plugin))"

section \<open>Properties of the install detection\<close>

subsection \<open>Outcomes and probes of the basic computations\<close>

lemma outcome_ret: "outcome (ret x) = Inr x"
  by (simp add: outcome_def ret_def)

lemma outcome_throw: "outcome (throw e) = Inl e"
  by (simp add: outcome_def throw_def)

lemma outcome_exists_path:
  "outcome (exists_path w p) =
     (case fs w p of
        status_present \<Rightarrow> Inr True
      | status_absent \<Rightarrow> Inr False
      | status_error what \<Rightarrow> Inl (filesystem_error what))"
  by (simp add: outcome_def exists_path_def)

lemma outcome_bind:
  "outcome (bind m f) = (case outcome m of Inl e \<Rightarrow> Inl e | Inr x \<Rightarrow> outcome (f x))"
  by (cases m; cases "snd m"; cases "f (projr (snd m))"; simp add: outcome_def bind_def; auto)

lemma probes_ret: "probes (ret x) = []"
  by (simp add: probes_def ret_def)

lemma probes_throw: "probes (throw e) = []"
  by (simp add: probes_def throw_def)

lemma probes_exists_path: "probes (exists_path w p) = [p]"
  by (simp add: probes_def exists_path_def)

lemma probes_bind:
  "probes (bind m f) =
     (case outcome m of Inl e \<Rightarrow> probes m | Inr x \<Rightarrow> probes m @ probes (f x))"
  by (cases m; cases "snd m"; simp add: outcome_def probes_def bind_def split: prod.splits)

subsection \<open>Answered probes\<close>

lemma answered_ret: "answered w (ret x)"
  by (simp add: answered_def probes_ret)

lemma answered_exists_path: "answered w (exists_path w p) = answers (fs w p)"
  by (simp add: answered_def probes_exists_path)

lemma answered_bind:
  "answered w (bind m f) =
     (answered w m \<and> (\<forall>x. outcome m = Inr x \<longrightarrow> answered w (f x)))"
  by (cases "outcome m") (simp_all add: answered_def probes_bind)

lemma outcome_exists_answered:
  "answers (fs w p) \<Longrightarrow> outcome (exists_path w p) = Inr (fs w p = status_present)"
  by (cases "fs w p") (simp_all add: outcome_exists_path)

lemma outcome_exists_failed:
  "fs w p = status_error what \<Longrightarrow> outcome (exists_path w p) = Inl (filesystem_error what)"
  by (simp add: outcome_exists_path)

lemma fails_only_ret: "fails_only_in_probes w (ret x)"
  by (simp add: fails_only_in_probes_def answered_ret outcome_ret)

lemma fails_only_exists_path: "fails_only_in_probes w (exists_path w p)"
  by (cases "fs w p")
    (auto simp: fails_only_in_probes_def answered_exists_path outcome_exists_path)

lemma fails_only_bind:
  assumes m: "fails_only_in_probes w m"
    and f: "\<And>x. outcome m = Inr x \<Longrightarrow> fails_only_in_probes w (f x)"
  shows "fails_only_in_probes w (bind m f)"
proof (cases "outcome m")
  case (Inl e)
  with m show ?thesis
    by (auto simp: fails_only_in_probes_def answered_bind outcome_bind split: if_splits)
next
  case (Inr x)
  with m f [OF Inr] show ?thesis
    by (auto simp: fails_only_in_probes_def answered_bind outcome_bind split: if_splits)
qed

lemma fails_only_returns:
  "fails_only_in_probes w m \<Longrightarrow> answered w m \<Longrightarrow> \<exists>x. outcome m = Inr x"
  by (simp add: fails_only_in_probes_def)

lemma fails_only_throws:
  "fails_only_in_probes w m \<Longrightarrow> \<not> answered w m \<Longrightarrow>
     \<exists>what. outcome m = Inl (filesystem_error what)"
  by (simp add: fails_only_in_probes_def)

lemma fails_only_returned:
  "fails_only_in_probes w m \<Longrightarrow> outcome m = Inr x \<Longrightarrow> answered w m"
  by (auto simp: fails_only_in_probes_def split: if_splits)

subsection \<open>Which classifiers and resolvers return\<close>

lemma IsSteamInstall_fails_only:
  "recognised_id g \<Longrightarrow> fails_only_in_probes w (IsSteamInstall w g dir)"
  by (cases g) (simp_all add: fails_only_ret fails_only_exists_path)

lemma IsSteamInstall_throws:
  "\<not> recognised_id g \<Longrightarrow>
     outcome (IsSteamInstall w g dir) = Inl (logic_error ''Unrecognised game ID'')"
  by (cases g) (simp_all add: outcome_throw)

lemma gog_icon_loop_fails_only: "fails_only_in_probes w (gog_icon_loop w dir ids)"
  by (induction ids) (auto intro!: fails_only_bind fails_only_ret fails_only_exists_path)

lemma IsGogInstall_fails_only: "fails_only_in_probes w (IsGogInstall w g dir)"
  by (simp add: IsGogInstall_def gog_icon_loop_fails_only)

lemma IsEpicInstall_fails_only: "fails_only_in_probes w (IsEpicInstall w dir)"
  by (simp add: IsEpicInstall_def fails_only_exists_path)

lemma IsMicrosoftInstall_fails_only: "fails_only_in_probes w (IsMicrosoftInstall w dir)"
  by (simp add: IsMicrosoftInstall_def fails_only_exists_path)

lemma DetectGameId_fails_only:
  "recognised_type t \<Longrightarrow> fails_only_in_probes w (DetectGameId w t dir)"
  by (cases t) (auto intro!: fails_only_bind fails_only_ret fails_only_exists_path)

lemma DetectGameId_recognised:
  "outcome (DetectGameId w t dir) = Inr g \<Longrightarrow> recognised_id g"
  by (cases t) (auto simp: outcome_ret outcome_bind outcome_throw split: sum.splits)

lemma DetectGameId_throws:
  "\<not> recognised_type t \<Longrightarrow>
     outcome (DetectGameId w t dir) = Inl (logic_error ''Unrecognised game ID'')"
  by (cases t) (simp_all add: outcome_throw)

lemma four_checks_fails_only:
  "recognised_id g \<Longrightarrow> fails_only_in_probes w (four_checks w g dir lp)"
  unfolding four_checks_def
  by (auto intro!: fails_only_bind fails_only_ret IsSteamInstall_fails_only
      IsGogInstall_fails_only IsEpicInstall_fails_only IsMicrosoftInstall_fails_only)

subsection \<open>The chain of the four checks\<close>

lemma sibling_scan_unfold:
  "FindSiblingGameInstall w g =
     (if \<not> IsValidGamePath w (GetGameType w g) (GetMasterFilename w g) sibling_path
      then ret None
      else four_checks w g sibling_path None)"
  by (simp add: FindSiblingGameInstall_def four_checks_def)

lemma detect_unfold:
  "DetectGameInstall w s =
     (if \<not> IsValidGamePath w (Type s) (Master s) (GamePath s) then ret None
      else bind (DetectGameId w (Type s) (GamePath s))
             (\<lambda>g. four_checks w g (GamePath s) (Some (GameLocalPath s))))"
  by (simp add: DetectGameInstall_def four_checks_def)

lemma four_checks_answered:
  assumes known: "recognised_id g"
    and a: "answered w (four_checks w g dir lp)"
  shows "outcome (four_checks w g dir lp) =
           Inr (Some \<lparr>gameId = g, source = four_way w g dir, installPath = dir,
                      localPath = lp\<rparr>)
         \<and> probes (four_checks w g dir lp) =
           probes (IsSteamInstall w g dir) @
           (if matches (IsSteamInstall w g dir) then []
            else probes (IsGogInstall w g dir) @
              (if matches (IsGogInstall w g dir) then []
               else probes (IsEpicInstall w dir) @
                 (if matches (IsEpicInstall w dir) then []
                  else probes (IsMicrosoftInstall w dir))))"
proof -
  from a have "answered w (IsSteamInstall w g dir)"
    by (auto simp: four_checks_def answered_bind)
  with IsSteamInstall_fails_only [OF known]
  obtain isSteam where s: "outcome (IsSteamInstall w g dir) = Inr isSteam"
    using fails_only_returns by blast
  show ?thesis
  proof (cases isSteam)
    case True
    with s show ?thesis
      by (simp add: four_checks_def four_way_def matches_def outcome_bind probes_bind
          outcome_ret probes_ret)
  next
    case notSteam: False
    with a s have "answered w (IsGogInstall w g dir)"
      by (auto simp: four_checks_def answered_bind)
    with IsGogInstall_fails_only
    obtain isGog where o: "outcome (IsGogInstall w g dir) = Inr isGog"
      using fails_only_returns by blast
    show ?thesis
    proof (cases isGog)
      case True
      with s o notSteam show ?thesis
        by (simp add: four_checks_def four_way_def matches_def outcome_bind probes_bind
            outcome_ret probes_ret)
    next
      case notGog: False
      with a s o notSteam have "answered w (IsEpicInstall w dir)"
        by (auto simp: four_checks_def answered_bind)
      with IsEpicInstall_fails_only
      obtain isEpic where e: "outcome (IsEpicInstall w dir) = Inr isEpic"
        using fails_only_returns by blast
      show ?thesis
      proof (cases isEpic)
        case True
        with s o e notSteam notGog show ?thesis
          by (simp add: four_checks_def four_way_def matches_def outcome_bind probes_bind
              outcome_ret probes_ret)
      next
        case notEpic: False
        with a s o e notSteam notGog have "answered w (IsMicrosoftInstall w dir)"
          by (auto simp: four_checks_def answered_bind)
        with IsMicrosoftInstall_fails_only
        obtain isMicrosoft where m: "outcome (IsMicrosoftInstall w dir) = Inr isMicrosoft"
          using fails_only_returns by blast
        with s o e notSteam notGog notEpic show ?thesis
          by (simp add: four_checks_def four_way_def matches_def outcome_bind probes_bind
              outcome_ret probes_ret)
      qed
    qed
  qed
qed

subsection \<open>The results of the scans\<close>

lemma registry_value_recognised: "GetRegistryValue g = Inr v \<Longrightarrow> recognised_id g"
  by (cases g) simp_all

lemma registry_value_exists: "recognised_id g \<Longrightarrow> \<exists>v. GetRegistryValue g = Inr v"
  by (cases g) simp_all

lemma first_match_two_way: "two_way w g dir \<in> {steam, gog, unknown}"
  by (simp add: two_way_def)

lemma sibling_scan_rejected:
  assumes "\<not> IsValidGamePath w (GetGameType w g) (GetMasterFilename w g) sibling_path"
  shows "FindSiblingGameInstall w g = ([], Inr None)"
  using assms by (simp add: FindSiblingGameInstall_def ret_def)

lemma sibling_scan_fails_only:
  "recognised_id g \<Longrightarrow> fails_only_in_probes w (FindSiblingGameInstall w g)"
  by (simp add: sibling_scan_unfold fails_only_ret four_checks_fails_only)

lemma sibling_scan_accepted:
  assumes valid: "IsValidGamePath w (GetGameType w g) (GetMasterFilename w g) sibling_path"
    and known: "recognised_id g"
    and a: "answered w (FindSiblingGameInstall w g)"
  shows "outcome (FindSiblingGameInstall w g) =
           Inr (Some \<lparr>gameId = g, source = four_way w g sibling_path,
                      installPath = sibling_path, localPath = None\<rparr>)"
  using four_checks_answered [OF known, of w sibling_path None] valid a
  by (simp add: sibling_scan_unfold)

lemma sibling_scan_probes:
  assumes valid: "IsValidGamePath w (GetGameType w g) (GetMasterFilename w g) sibling_path"
    and known: "recognised_id g"
    and a: "answered w (FindSiblingGameInstall w g)"
  shows "probes (FindSiblingGameInstall w g) =
           probes (IsSteamInstall w g sibling_path) @
           (if matches (IsSteamInstall w g sibling_path) then []
            else probes (IsGogInstall w g sibling_path) @
              (if matches (IsGogInstall w g sibling_path) then []
               else probes (IsEpicInstall w sibling_path) @
                 (if matches (IsEpicInstall w sibling_path) then []
                  else probes (IsMicrosoftInstall w sibling_path))))"
  using four_checks_answered [OF known, of w sibling_path None] valid a
  by (simp add: sibling_scan_unfold)

text \<open>The two checks of the registry scan, on a path the validator accepts.\<close>

lemma registry_scan_unfold:
  assumes "GetRegistryValue g = Inr v"
  shows "FindGameInstallInRegistry w registry g =
           (case ReadPathFromRegistry registry v of
              None \<Rightarrow> ret None
            | Some p \<Rightarrow>
                if IsValidGamePath w (GetGameType w g) (GetMasterFilename w g) p then
                  bind (IsSteamInstall w g p) (\<lambda>isSteam.
                    if isSteam then
                      ret (Some \<lparr>gameId = g, source = steam, installPath = p,
                                 localPath = None\<rparr>)
                    else
                      bind (IsGogInstall w g p) (\<lambda>isGog.
                        if isGog then
                          ret (Some \<lparr>gameId = g, source = gog, installPath = p,
                                     localPath = None\<rparr>)
                        else
                          ret (Some \<lparr>gameId = g, source = unknown, installPath = p,
                                     localPath = None\<rparr>)))
                else ret None)"
  using assms by (simp add: FindGameInstallInRegistry_def)

lemma registry_scan_fails_only:
  assumes known: "recognised_id g"
  shows "fails_only_in_probes w (FindGameInstallInRegistry w registry g)"
proof -
  from registry_value_exists [OF known] obtain v where v: "GetRegistryValue g = Inr v"
    by blast
  show ?thesis
    unfolding registry_scan_unfold [OF v]
    by (auto intro!: fails_only_bind fails_only_ret IsSteamInstall_fails_only [OF known]
        IsGogInstall_fails_only split: option.splits)
qed

lemma registry_scan_accepted:
  assumes v: "GetRegistryValue g = Inr v"
    and a: "answered w (FindGameInstallInRegistry w registry g)"
  shows "outcome (FindGameInstallInRegistry w registry g) =
           Inr (case ReadPathFromRegistry registry v of
                  None \<Rightarrow> None
                | Some p \<Rightarrow>
                    if IsValidGamePath w (GetGameType w g) (GetMasterFilename w g) p
                    then Some \<lparr>gameId = g, source = two_way w g p, installPath = p,
                               localPath = None\<rparr>
                    else None)"
proof (cases "ReadPathFromRegistry registry v")
  case None
  then show ?thesis by (simp add: registry_scan_unfold [OF v] outcome_ret)
next
  case (Some p)
  note known = registry_value_recognised [OF v]
  show ?thesis
  proof (cases "IsValidGamePath w (GetGameType w g) (GetMasterFilename w g) p")
    case False
    with Some show ?thesis by (simp add: registry_scan_unfold [OF v] outcome_ret)
  next
    case True
    with a Some have "answered w (IsSteamInstall w g p)"
      by (auto simp: registry_scan_unfold [OF v] answered_bind)
    with IsSteamInstall_fails_only [OF known]
    obtain isSteam where s: "outcome (IsSteamInstall w g p) = Inr isSteam"
      using fails_only_returns by blast
    show ?thesis
    proof (cases isSteam)
      case True
      with s Some \<open>IsValidGamePath w (GetGameType w g) (GetMasterFilename w g) p\<close>
      show ?thesis
        by (simp add: registry_scan_unfold [OF v] two_way_def matches_def outcome_bind
            outcome_ret)
    next
      case False
      with a s Some \<open>IsValidGamePath w (GetGameType w g) (GetMasterFilename w g) p\<close>
      have "answered w (IsGogInstall w g p)"
        by (auto simp: registry_scan_unfold [OF v] answered_bind)
      with IsGogInstall_fails_only
      obtain isGog where o: "outcome (IsGogInstall w g p) = Inr isGog"
        using fails_only_returns by blast
      with s False Some \<open>IsValidGamePath w (GetGameType w g) (GetMasterFilename w g) p\<close>
      show ?thesis
        by (simp add: registry_scan_unfold [OF v] two_way_def matches_def outcome_bind
            outcome_ret)
    qed
  qed
qed

lemma registry_scan_throws:
  assumes "\<not> recognised_id g"
  shows "FindGameInstallInRegistry w registry g =
           ([], Inl (logic_error ''Unrecognised game ID''))"
  using assms by (cases g) (simp_all add: FindGameInstallInRegistry_def throw_def)

lemma detect_rejected:
  assumes "\<not> IsValidGamePath w (Type s) (Master s) (GamePath s)"
  shows "DetectGameInstall w s = ([], Inr None)"
  using assms by (simp add: DetectGameInstall_def ret_def)

lemma detect_fails_only:
  assumes "recognised_type (Type s)"
  shows "fails_only_in_probes w (DetectGameInstall w s)"
  unfolding detect_unfold
  by (auto intro!: fails_only_bind fails_only_ret DetectGameId_fails_only [OF assms]
      four_checks_fails_only dest: DetectGameId_recognised)

lemma detect_accepted:
  assumes valid: "IsValidGamePath w (Type s) (Master s) (GamePath s)"
    and known: "recognised_type (Type s)"
    and a: "answered w (DetectGameInstall w s)"
  shows "\<exists>g. outcome (DetectGameId w (Type s) (GamePath s)) = Inr g \<and>
           outcome (DetectGameInstall w s) =
             Inr (Some \<lparr>gameId = g, source = four_way w g (GamePath s),
                        installPath = GamePath s, localPath = Some (GameLocalPath s)\<rparr>) \<and>
           probes (DetectGameInstall w s) =
             probes (DetectGameId w (Type s) (GamePath s)) @
             probes (IsSteamInstall w g (GamePath s)) @
             (if matches (IsSteamInstall w g (GamePath s)) then []
              else probes (IsGogInstall w g (GamePath s)) @
                (if matches (IsGogInstall w g (GamePath s)) then []
                 else probes (IsEpicInstall w (GamePath s)) @
                   (if matches (IsEpicInstall w (GamePath s)) then []
                    else probes (IsMicrosoftInstall w (GamePath s)))))"
proof -
  from a valid have "answered w (DetectGameId w (Type s) (GamePath s))"
    by (auto simp: detect_unfold answered_bind)
  with DetectGameId_fails_only [OF known]
  obtain g where g: "outcome (DetectGameId w (Type s) (GamePath s)) = Inr g"
    using fails_only_returns by blast
  note rec = DetectGameId_recognised [OF g]
  from a valid g have "answered w (four_checks w g (GamePath s) (Some (GameLocalPath s)))"
    by (auto simp: detect_unfold answered_bind)
  from four_checks_answered [OF rec this] valid g
  show ?thesis
    by (simp add: detect_unfold outcome_bind probes_bind)
qed

lemma first_match_steam: "matches (IsSteamInstall w g dir) \<Longrightarrow> four_way w g dir = steam"
  by (simp add: four_way_def)

lemma four_way_unknown:
  "(four_way w g dir = unknown) =
     (\<not> matches (IsSteamInstall w g dir) \<and> \<not> matches (IsGogInstall w g dir) \<and>
      \<not> matches (IsEpicInstall w dir) \<and> \<not> matches (IsMicrosoftInstall w dir))"
  by (simp add: four_way_def)

subsection \<open>The priority list\<close>

text \<open>
  C1. For a recognised game identity (or family) and a path the validator accepts, the
  source that \<open>DetectGameInstall\<close> and the sibling scan report is the first match of
  the list Steam, GOG, Epic, Microsoft, and \<open>unknown\<close> exactly when none of the four
  matches; the checks are made in that order and none is made after the first match. In
  particular a path that matches both the Steam check and the GOG check is classified as
  \<open>steam\<close>. This is said of the runs that report a source: those whose existence checks
  are all answered.
\<close>

theorem source_priority_order:
  "(recognised_type (Type s) \<and> IsValidGamePath w (Type s) (Master s) (GamePath s) \<and>
    answered w (DetectGameInstall w s) \<longrightarrow>
      (\<exists>g'. outcome (DetectGameId w (Type s) (GamePath s)) = Inr g' \<and>
         outcome (DetectGameInstall w s) =
           Inr (Some \<lparr>gameId = g', source = four_way w g' (GamePath s),
                      installPath = GamePath s, localPath = Some (GameLocalPath s)\<rparr>) \<and>
         probes (DetectGameInstall w s) =
           probes (DetectGameId w (Type s) (GamePath s)) @
           probes (IsSteamInstall w g' (GamePath s)) @
           (if matches (IsSteamInstall w g' (GamePath s)) then []
            else probes (IsGogInstall w g' (GamePath s)) @
              (if matches (IsGogInstall w g' (GamePath s)) then []
               else probes (IsEpicInstall w (GamePath s)) @
                 (if matches (IsEpicInstall w (GamePath s)) then []
                  else probes (IsMicrosoftInstall w (GamePath s)))))))
   \<and> (recognised_id g \<and>
        IsValidGamePath w (GetGameType w g) (GetMasterFilename w g) sibling_path \<and>
        answered w (FindSiblingGameInstall w g) \<longrightarrow>
        outcome (FindSiblingGameInstall w g) =
          Inr (Some \<lparr>gameId = g, source = four_way w g sibling_path,
                     installPath = sibling_path, localPath = None\<rparr>) \<and>
        probes (FindSiblingGameInstall w g) =
           probes (IsSteamInstall w g sibling_path) @
           (if matches (IsSteamInstall w g sibling_path) then []
            else probes (IsGogInstall w g sibling_path) @
              (if matches (IsGogInstall w g sibling_path) then []
               else probes (IsEpicInstall w sibling_path) @
                 (if matches (IsEpicInstall w sibling_path) then []
                  else probes (IsMicrosoftInstall w sibling_path)))))
   \<and> (matches (IsSteamInstall w g dir) \<and> matches (IsGogInstall w g dir) \<longrightarrow>
        four_way w g dir = steam)
   \<and> ((four_way w g dir = unknown) =
        (\<not> matches (IsSteamInstall w g dir) \<and> \<not> matches (IsGogInstall w g dir) \<and>
         \<not> matches (IsEpicInstall w dir) \<and> \<not> matches (IsMicrosoftInstall w dir)))"
proof -
  have detect: "\<exists>g'. outcome (DetectGameId w (Type s) (GamePath s)) = Inr g' \<and>
         outcome (DetectGameInstall w s) =
           Inr (Some \<lparr>gameId = g', source = four_way w g' (GamePath s),
                      installPath = GamePath s, localPath = Some (GameLocalPath s)\<rparr>) \<and>
         probes (DetectGameInstall w s) =
           probes (DetectGameId w (Type s) (GamePath s)) @
           probes (IsSteamInstall w g' (GamePath s)) @
           (if matches (IsSteamInstall w g' (GamePath s)) then []
            else probes (IsGogInstall w g' (GamePath s)) @
              (if matches (IsGogInstall w g' (GamePath s)) then []
               else probes (IsEpicInstall w (GamePath s)) @
                 (if matches (IsEpicInstall w (GamePath s)) then []
                  else probes (IsMicrosoftInstall w (GamePath s)))))"
    if "recognised_type (Type s) \<and> IsValidGamePath w (Type s) (Master s) (GamePath s) \<and>
        answered w (DetectGameInstall w s)"
    using that detect_accepted [of w s] by blast
  have sibling: "outcome (FindSiblingGameInstall w g) =
          Inr (Some \<lparr>gameId = g, source = four_way w g sibling_path,
                     installPath = sibling_path, localPath = None\<rparr>) \<and>
        probes (FindSiblingGameInstall w g) =
           probes (IsSteamInstall w g sibling_path) @
           (if matches (IsSteamInstall w g sibling_path) then []
            else probes (IsGogInstall w g sibling_path) @
              (if matches (IsGogInstall w g sibling_path) then []
               else probes (IsEpicInstall w sibling_path) @
                 (if matches (IsEpicInstall w sibling_path) then []
                  else probes (IsMicrosoftInstall w sibling_path))))"
    if "recognised_id g \<and>
        IsValidGamePath w (GetGameType w g) (GetMasterFilename w g) sibling_path \<and>
        answered w (FindSiblingGameInstall w g)"
    using that sibling_scan_accepted [of w g] sibling_scan_probes [of w g] by blast
  have both: "four_way w g dir = steam"
    if "matches (IsSteamInstall w g dir) \<and> matches (IsGogInstall w g dir)"
    using that by (simp add: first_match_steam)
  from detect sibling both four_way_unknown [of w g dir] show ?thesis by blast
qed

text \<open>The example worlds, unfolded.\<close>

lemma world_with_simps:
  "fs (world_with files) p = (if p \<in> set files then status_present else status_absent)"
  "IsValidGamePath (world_with files) t m p = True"
  "GetGameType (world_with files) = family_of"
  "GetGogGameIds (world_with files) g = (if g = GameId_tes4 then [''1458058109''] else [])"
  by (simp_all add: world_with_def)

lemma world_with_answered: "answered (world_with files) m"
  by (simp add: answered_def list_all_iff world_with_simps)

lemma invalid_world_answered: "answered (invalid_world files) m"
  by (simp add: answered_def list_all_iff invalid_world_def world_with_def)

lemma world_failing_at_simps:
  "fs (world_failing_at files bad) p =
     (if p = bad then status_error ''Too many levels of symbolic links''
      else if p \<in> set files then status_present else status_absent)"
  "IsValidGamePath (world_failing_at files bad) t m p = True"
  "GetGameType (world_failing_at files bad) = family_of"
  "GetGogGameIds (world_failing_at files bad) g =
     (if g = GameId_tes4 then [''1458058109''] else [])"
  by (simp_all add: world_failing_at_def world_with_def)

theorem source_priority_order_witness:
  "recognised_id GameId_tes4 \<and>
   answered
     (world_with [[''..'', ''installscript.vdf''], [''..'', ''goggame-1458058109.ico'']])
     (FindSiblingGameInstall
        (world_with [[''..'', ''installscript.vdf''], [''..'', ''goggame-1458058109.ico'']])
        GameId_tes4) \<and>
   matches (IsSteamInstall
     (world_with [[''..'', ''installscript.vdf''], [''..'', ''goggame-1458058109.ico'']])
     GameId_tes4 sibling_path) \<and>
   matches (IsGogInstall
     (world_with [[''..'', ''installscript.vdf''], [''..'', ''goggame-1458058109.ico'']])
     GameId_tes4 sibling_path) \<and>
   outcome (FindSiblingGameInstall
     (world_with [[''..'', ''installscript.vdf''], [''..'', ''goggame-1458058109.ico'']])
     GameId_tes4) =
     Inr (Some \<lparr>gameId = GameId_tes4, source = steam, installPath = sibling_path,
                localPath = None\<rparr>) \<and>
   outcome (DetectGameInstall
     (world_with [[''C:'', ''Oblivion'', ''goggame-1458058109.ico''],
                  [''C:'', ''Oblivion'', ''.egstore'']])
     oblivion_settings) =
     Inr (Some \<lparr>gameId = GameId_tes4, source = gog, installPath = [''C:'', ''Oblivion''],
                localPath = Some [''C:'', ''Local'', ''Oblivion'']\<rparr>)"
proof -
  let ?w = "world_with [[''..'', ''installscript.vdf''], [''..'', ''goggame-1458058109.ico'']]"
  let ?v = "world_with [[''C:'', ''Oblivion'', ''goggame-1458058109.ico''],
                  [''C:'', ''Oblivion'', ''.egstore'']]"
  have s: "matches (IsSteamInstall ?w GameId_tes4 sibling_path)"
    by (simp add: matches_def outcome_exists_path world_with_simps sibling_path_def
        path_append_def)
  have o: "matches (IsGogInstall ?w GameId_tes4 sibling_path)"
    by (simp add: matches_def IsGogInstall_def outcome_bind outcome_ret
        outcome_exists_path world_with_simps sibling_path_def path_append_def)
  have d: "outcome (DetectGameId ?v GameType_tes4 [''C:'', ''Oblivion'']) = Inr GameId_tes4"
    by (simp add: outcome_bind outcome_ret outcome_exists_path world_with_simps
        path_append_def)
  have f: "four_way ?v GameId_tes4 [''C:'', ''Oblivion''] = gog"
    by (simp add: four_way_def matches_def IsGogInstall_def outcome_bind outcome_ret
        outcome_exists_path world_with_simps path_append_def)
  from source_priority_order [where s = oblivion_settings and w = ?v and g = GameId_tes4
      and dir = sibling_path]
  have 1: "outcome (DetectGameInstall ?v oblivion_settings) =
     Inr (Some \<lparr>gameId = GameId_tes4, source = gog, installPath = [''C:'', ''Oblivion''],
                localPath = Some [''C:'', ''Local'', ''Oblivion'']\<rparr>)"
    using d f by (simp add: oblivion_settings_def world_with_simps world_with_answered)
  from source_priority_order [where s = oblivion_settings and w = ?w and g = GameId_tes4
      and dir = sibling_path]
  have 2: "outcome (FindSiblingGameInstall ?w GameId_tes4) =
     Inr (Some \<lparr>gameId = GameId_tes4, source = steam, installPath = sibling_path,
                localPath = None\<rparr>)"
    using s o by (simp add: world_with_simps world_with_answered)
  show ?thesis using s o 1 2 by (simp add: world_with_answered)
qed

subsection \<open>The registry scan\<close>

text \<open>
  C2. The registry scan classifies a registry path that the validator accepts with the
  Steam check and then the GOG check only: the source of the install it returns is the
  first match of the two, \<open>unknown\<close> when neither matches, and never \<open>epic\<close> or
  \<open>microsoft\<close>.
\<close>

theorem registry_scan_steam_gog_only:
  "(outcome (FindGameInstallInRegistry w registry g) = Inr (Some inst) \<longrightarrow>
      gameId inst = g \<and>
      source inst = two_way w g (installPath inst) \<and>
      source inst \<in> {steam, gog, unknown} \<and>
      source inst \<noteq> epic \<and> source inst \<noteq> microsoft)
   \<and> (GetRegistryValue g = Inr v \<and> ReadPathFromRegistry registry v = Some p \<and>
        IsValidGamePath w (GetGameType w g) (GetMasterFilename w g) p \<and>
        answered w (FindGameInstallInRegistry w registry g) \<longrightarrow>
        outcome (FindGameInstallInRegistry w registry g) =
          Inr (Some \<lparr>gameId = g, source = two_way w g p, installPath = p,
                     localPath = None\<rparr>))"
proof (intro conjI impI)
  assume r: "outcome (FindGameInstallInRegistry w registry g) = Inr (Some inst)"
  have known: "recognised_id g"
  proof (rule ccontr)
    assume "\<not> recognised_id g"
    from registry_scan_throws [OF this] r show False by (simp add: outcome_def)
  qed
  then obtain v' where v': "GetRegistryValue g = Inr v'"
    using registry_value_exists by blast
  from registry_scan_fails_only [OF known] r
  have a: "answered w (FindGameInstallInRegistry w registry g)"
    by (rule fails_only_returned)
  from registry_scan_accepted [OF v' a] r
  have i: "inst = \<lparr>gameId = g, source = two_way w g (installPath inst),
                   installPath = installPath inst, localPath = None\<rparr>"
    by (auto split: option.splits if_splits)
  from i show "gameId inst = g" by (metis GameInstall.select_convs(1))
  from i show s: "source inst = two_way w g (installPath inst)"
    by (metis GameInstall.select_convs(2))
  from s first_match_two_way [of w g "installPath inst"]
  show "source inst \<in> {steam, gog, unknown}" by simp
  then show "source inst \<noteq> epic" by auto
  from \<open>source inst \<in> {steam, gog, unknown}\<close> show "source inst \<noteq> microsoft" by auto
next
  assume "GetRegistryValue g = Inr v \<and> ReadPathFromRegistry registry v = Some p \<and>
        IsValidGamePath w (GetGameType w g) (GetMasterFilename w g) p \<and>
        answered w (FindGameInstallInRegistry w registry g)"
  then show "outcome (FindGameInstallInRegistry w registry g) =
          Inr (Some \<lparr>gameId = g, source = two_way w g p, installPath = p,
                     localPath = None\<rparr>)"
    using registry_scan_accepted [of g v w registry] by simp
qed

theorem registry_scan_steam_gog_only_witness:
  "GetRegistryValue GameId_fo3 = Inr (bethesda_value ''Fallout3'') \<and>
   ReadPathFromRegistry (registry_with [''D:'', ''Fallout 3'']) (bethesda_value ''Fallout3'')
     = Some [''D:'', ''Fallout 3''] \<and>
   fs (world_with [[''D:'', ''Fallout 3'', ''.egstore'']]) [''D:'', ''Fallout 3'', ''.egstore'']
     = status_present \<and>
   answered (world_with [[''D:'', ''Fallout 3'', ''.egstore'']])
     (FindGameInstallInRegistry (world_with [[''D:'', ''Fallout 3'', ''.egstore'']])
        (registry_with [''D:'', ''Fallout 3'']) GameId_fo3) \<and>
   outcome (FindGameInstallInRegistry (world_with [[''D:'', ''Fallout 3'', ''.egstore'']])
              (registry_with [''D:'', ''Fallout 3'']) GameId_fo3) =
     Inr (Some \<lparr>gameId = GameId_fo3, source = unknown, installPath = [''D:'', ''Fallout 3''],
                localPath = None\<rparr>)"
proof -
  let ?w = "world_with [[''D:'', ''Fallout 3'', ''.egstore'']]"
  have t: "two_way ?w GameId_fo3 [''D:'', ''Fallout 3''] = unknown"
    by (simp add: two_way_def matches_def IsGogInstall_def outcome_ret
        outcome_exists_path world_with_simps path_append_def)
  from registry_scan_steam_gog_only [where w = ?w and g = GameId_fo3
      and registry = "registry_with [''D:'', ''Fallout 3'']"
      and v = "bethesda_value ''Fallout3''" and p = "[''D:'', ''Fallout 3'']"]
  show ?thesis
    using t by (simp add: ReadPathFromRegistry_def registry_with_def world_with_simps
        world_with_answered)
qed

subsection \<open>Concatenation of the two scans\<close>

lemma FindGameInstalls_answered_parts:
  assumes a: "answered w (FindGameInstalls w registry g)"
    and known: "recognised_id g"
  shows "answered w (FindSiblingGameInstall w g)"
    and "answered w (FindGameInstallInRegistry w registry g)"
proof -
  from a show s: "answered w (FindSiblingGameInstall w g)"
    by (auto simp: FindGameInstalls_def answered_bind)
  with sibling_scan_fails_only [OF known]
  obtain sibling where "outcome (FindSiblingGameInstall w g) = Inr sibling"
    using fails_only_returns by blast
  with a show "answered w (FindGameInstallInRegistry w registry g)"
    by (auto simp: FindGameInstalls_def answered_bind)
qed

text \<open>
  C6. For a recognised game identity \<open>FindGameInstalls\<close> returns the result of the
  sibling scan, if any, followed by the result of the registry scan, if any: at most two
  entries. Nothing is de-duplicated: when the validator accepts both the sibling path and
  the registry path there are two entries, also when the two paths are the same. This is
  said of the runs that return a list: those whose existence checks are all answered.
\<close>

theorem FindGameInstalls_concatenates:
  "(recognised_id g \<and> answered w (FindGameInstalls w registry g) \<longrightarrow>
      (\<exists>sibling registryInstall.
         outcome (FindSiblingGameInstall w g) = Inr sibling \<and>
         outcome (FindGameInstallInRegistry w registry g) = Inr registryInstall \<and>
         outcome (FindGameInstalls w registry g) =
           Inr (option_to_list sibling @ option_to_list registryInstall) \<and>
         length (option_to_list sibling @ option_to_list registryInstall) \<le> 2))
   \<and> (GetRegistryValue g = Inr v \<and> ReadPathFromRegistry registry v = Some p \<and>
        IsValidGamePath w (GetGameType w g) (GetMasterFilename w g) sibling_path \<and>
        IsValidGamePath w (GetGameType w g) (GetMasterFilename w g) p \<and>
        answered w (FindGameInstalls w registry g) \<longrightarrow>
        outcome (FindGameInstalls w registry g) =
          Inr [\<lparr>gameId = g, source = four_way w g sibling_path,
                 installPath = sibling_path, localPath = None\<rparr>,
               \<lparr>gameId = g, source = two_way w g p, installPath = p, localPath = None\<rparr>])"
proof (intro conjI impI)
  assume h: "recognised_id g \<and> answered w (FindGameInstalls w registry g)"
  then have known: "recognised_id g" and a: "answered w (FindGameInstalls w registry g)"
    by simp_all
  note parts = FindGameInstalls_answered_parts [OF a known]
  obtain sibling where s: "outcome (FindSiblingGameInstall w g) = Inr sibling"
    using fails_only_returns [OF sibling_scan_fails_only [OF known] parts(1)] by blast
  obtain registryInstall where
    r: "outcome (FindGameInstallInRegistry w registry g) = Inr registryInstall"
    using fails_only_returns [OF registry_scan_fails_only [OF known] parts(2)] by blast
  have c: "outcome (FindGameInstalls w registry g) =
      Inr (option_to_list sibling @ option_to_list registryInstall)"
    using s r by (simp add: FindGameInstalls_def outcome_bind outcome_ret)
  have l: "length (option_to_list sibling @ option_to_list registryInstall) \<le> 2"
    by (simp add: option_to_list_def split: option.splits)
  from s r c l show "\<exists>sibling registryInstall.
         outcome (FindSiblingGameInstall w g) = Inr sibling \<and>
         outcome (FindGameInstallInRegistry w registry g) = Inr registryInstall \<and>
         outcome (FindGameInstalls w registry g) =
           Inr (option_to_list sibling @ option_to_list registryInstall) \<and>
         length (option_to_list sibling @ option_to_list registryInstall) \<le> 2"
    by blast
next
  assume h: "GetRegistryValue g = Inr v \<and> ReadPathFromRegistry registry v = Some p \<and>
        IsValidGamePath w (GetGameType w g) (GetMasterFilename w g) sibling_path \<and>
        IsValidGamePath w (GetGameType w g) (GetMasterFilename w g) p \<and>
        answered w (FindGameInstalls w registry g)"
  then have known: "recognised_id g" using registry_value_recognised by blast
  from h have a: "answered w (FindGameInstalls w registry g)" by simp
  note parts = FindGameInstalls_answered_parts [OF a known]
  from h sibling_scan_accepted [of w g] known parts(1)
  have s: "outcome (FindSiblingGameInstall w g) =
           Inr (Some \<lparr>gameId = g, source = four_way w g sibling_path,
                      installPath = sibling_path, localPath = None\<rparr>)"
    by simp
  from h registry_scan_accepted [of g v w registry] parts(2)
  have r: "outcome (FindGameInstallInRegistry w registry g) =
          Inr (Some \<lparr>gameId = g, source = two_way w g p, installPath = p,
                     localPath = None\<rparr>)"
    by simp
  show "outcome (FindGameInstalls w registry g) =
          Inr [\<lparr>gameId = g, source = four_way w g sibling_path,
                 installPath = sibling_path, localPath = None\<rparr>,
               \<lparr>gameId = g, source = two_way w g p, installPath = p, localPath = None\<rparr>]"
    using s r by (simp add: FindGameInstalls_def outcome_bind outcome_ret option_to_list_def)
qed

theorem FindGameInstalls_concatenates_witness:
  "GetRegistryValue GameId_fonv = Inr (bethesda_value ''FalloutNV'') \<and>
   ReadPathFromRegistry (registry_with sibling_path) (bethesda_value ''FalloutNV'')
     = Some sibling_path \<and>
   answered (world_with [[''..'', ''installscript.vdf'']])
     (FindGameInstalls (world_with [[''..'', ''installscript.vdf'']])
        (registry_with sibling_path) GameId_fonv) \<and>
   outcome (FindGameInstalls (world_with [[''..'', ''installscript.vdf'']])
              (registry_with sibling_path) GameId_fonv) =
     Inr [\<lparr>gameId = GameId_fonv, source = steam, installPath = sibling_path,
            localPath = None\<rparr>,
          \<lparr>gameId = GameId_fonv, source = steam, installPath = sibling_path,
            localPath = None\<rparr>]"
proof -
  let ?w = "world_with [[''..'', ''installscript.vdf'']]"
  have s: "matches (IsSteamInstall ?w GameId_fonv sibling_path)"
    by (simp add: matches_def outcome_exists_path world_with_simps sibling_path_def
        path_append_def)
  then have f: "four_way ?w GameId_fonv sibling_path = steam"
    and t: "two_way ?w GameId_fonv sibling_path = steam"
    by (simp_all add: four_way_def two_way_def)
  from FindGameInstalls_concatenates [where w = ?w and g = GameId_fonv
      and registry = "registry_with sibling_path"
      and v = "bethesda_value ''FalloutNV''" and p = sibling_path]
  show ?thesis
    using f t by (simp add: ReadPathFromRegistry_def registry_with_def world_with_simps
        world_with_answered)
qed

subsection \<open>Validation comes first in \<open>DetectGameInstall\<close>\<close>

text \<open>
  C7, amended. When the validator rejects the configured type, master file and path,
  \<open>DetectGameInstall\<close> returns nothing and has made no existence check of its own. When
  the validator accepts them, and the type is a recognised family, it returns a
  \<open>GameInstall\<close> with the configured install path and local-data path if every existence
  check it makes is answered; if one of them fails it returns nothing at all: it throws
  the \<open>filesystem_error\<close> of that check.
\<close>

theorem DetectGameInstall_validates_first:
  "(\<not> IsValidGamePath w (Type s) (Master s) (GamePath s) \<longrightarrow>
      outcome (DetectGameInstall w s) = Inr None \<and> probes (DetectGameInstall w s) = [])
   \<and> (IsValidGamePath w (Type s) (Master s) (GamePath s) \<and> recognised_type (Type s) \<and>
        answered w (DetectGameInstall w s) \<longrightarrow>
        (\<exists>inst. outcome (DetectGameInstall w s) = Inr (Some inst) \<and>
           installPath inst = GamePath s \<and>
           localPath inst = Some (GameLocalPath s)))
   \<and> (IsValidGamePath w (Type s) (Master s) (GamePath s) \<and> recognised_type (Type s) \<and>
        \<not> answered w (DetectGameInstall w s) \<longrightarrow>
        (\<exists>what. outcome (DetectGameInstall w s) = Inl (filesystem_error what)))"
proof (intro conjI impI)
  assume "\<not> IsValidGamePath w (Type s) (Master s) (GamePath s)"
  from detect_rejected [OF this]
  show "outcome (DetectGameInstall w s) = Inr None" and "probes (DetectGameInstall w s) = []"
    by (simp_all add: outcome_def probes_def)
next
  assume a: "IsValidGamePath w (Type s) (Master s) (GamePath s) \<and> recognised_type (Type s) \<and>
        answered w (DetectGameInstall w s)"
  with detect_accepted [of w s]
  obtain g where "outcome (DetectGameInstall w s) =
             Inr (Some \<lparr>gameId = g, source = four_way w g (GamePath s),
                        installPath = GamePath s, localPath = Some (GameLocalPath s)\<rparr>)"
    by blast
  then show "\<exists>inst. outcome (DetectGameInstall w s) = Inr (Some inst) \<and>
           installPath inst = GamePath s \<and>
           localPath inst = Some (GameLocalPath s)"
    by simp
next
  assume "IsValidGamePath w (Type s) (Master s) (GamePath s) \<and> recognised_type (Type s) \<and>
        \<not> answered w (DetectGameInstall w s)"
  then show "\<exists>what. outcome (DetectGameInstall w s) = Inl (filesystem_error what)"
    using fails_only_throws [OF detect_fails_only] by blast
qed

theorem DetectGameInstall_validates_first_witness:
  "\<not> IsValidGamePath (invalid_world [[''C:'', ''Oblivion'', ''installscript.vdf'']])
       (Type oblivion_settings) (Master oblivion_settings) (GamePath oblivion_settings) \<and>
   DetectGameInstall (invalid_world [[''C:'', ''Oblivion'', ''installscript.vdf'']])
     oblivion_settings = ([], Inr None) \<and>
   IsValidGamePath (world_with [[''C:'', ''Oblivion'', ''installscript.vdf'']])
       (Type oblivion_settings) (Master oblivion_settings) (GamePath oblivion_settings) \<and>
   recognised_type (Type oblivion_settings) \<and>
   answered (world_with [[''C:'', ''Oblivion'', ''installscript.vdf'']])
     (DetectGameInstall (world_with [[''C:'', ''Oblivion'', ''installscript.vdf'']])
        oblivion_settings) \<and>
   (\<exists>inst. outcome (DetectGameInstall (world_with [[''C:'', ''Oblivion'', ''installscript.vdf'']])
              oblivion_settings) = Inr (Some inst) \<and>
      localPath inst = Some [''C:'', ''Local'', ''Oblivion''])"
proof -
  let ?files = "[[''C:'', ''Oblivion'', ''installscript.vdf'']]"
  have i: "\<not> IsValidGamePath (invalid_world ?files)
       (Type oblivion_settings) (Master oblivion_settings) (GamePath oblivion_settings)"
    by (simp add: invalid_world_def)
  from DetectGameInstall_validates_first [of "invalid_world ?files" oblivion_settings] i
  have 1: "DetectGameInstall (invalid_world ?files) oblivion_settings = ([], Inr None)"
    by (simp add: outcome_def probes_def prod_eq_iff)
  from DetectGameInstall_validates_first [of "world_with ?files" oblivion_settings]
  have 2: "\<exists>inst. outcome (DetectGameInstall (world_with ?files) oblivion_settings)
              = Inr (Some inst) \<and> localPath inst = Some [''C:'', ''Local'', ''Oblivion'']"
    by (auto simp: world_with_simps world_with_answered oblivion_settings_def)
  show ?thesis
    using i 1 2 by (simp add: world_with_simps world_with_answered oblivion_settings_def)
qed

text \<open>
  The claim as first stated, that an accepted triple always gives a \<open>GameInstall\<close>, fails
  where the status of a marker cannot be read: with a looping link at
  \<open>installscript.vdf\<close> the resolver finds Oblivion, the Steam check throws, and nothing
  is returned.
\<close>

theorem DetectGameInstall_probe_failure:
  "IsValidGamePath (world_failing_at [] [''C:'', ''Oblivion'', ''installscript.vdf''])
       (Type oblivion_settings) (Master oblivion_settings) (GamePath oblivion_settings) \<and>
   recognised_type (Type oblivion_settings) \<and>
   DetectGameInstall (world_failing_at [] [''C:'', ''Oblivion'', ''installscript.vdf''])
     oblivion_settings =
     ([[''C:'', ''Oblivion'', ''NehrimLauncher.exe''],
       [''C:'', ''Oblivion'', ''installscript.vdf'']],
      Inl (filesystem_error ''Too many levels of symbolic links''))"
  by (simp add: DetectGameInstall_def oblivion_settings_def world_failing_at_simps
      bind_def exists_path_def ret_def path_append_def)

subsection \<open>The sibling scan\<close>

text \<open>
  C8, amended. The sibling scan discards the parent directory when the validator rejects
  it: it returns nothing, probes nothing, and \<open>FindGameInstalls\<close> returns what the
  registry scan alone gives. Otherwise it emits, first in the result of
  \<open>FindGameInstalls\<close>, a \<open>GameInstall\<close> for the identity it was given (the identity is
  not resolved again from the family and the path: no variant-marker check is made),
  with the classified source and no local-data path. The emitting is said of the runs
  whose existence checks are all answered.
\<close>

theorem sibling_scan_keeps_given_identity:
  "(\<not> IsValidGamePath w (GetGameType w g) (GetMasterFilename w g) sibling_path \<longrightarrow>
      outcome (FindSiblingGameInstall w g) = Inr None \<and>
      probes (FindSiblingGameInstall w g) = [] \<and>
      outcome (FindGameInstalls w registry g) =
        (case outcome (FindGameInstallInRegistry w registry g) of
           Inl e \<Rightarrow> Inl e
         | Inr registryInstall \<Rightarrow> Inr (option_to_list registryInstall)))
   \<and> (IsValidGamePath w (GetGameType w g) (GetMasterFilename w g) sibling_path \<and>
        recognised_id g \<and> answered w (FindSiblingGameInstall w g) \<longrightarrow>
        outcome (FindSiblingGameInstall w g) =
          Inr (Some \<lparr>gameId = g, source = four_way w g sibling_path,
                     installPath = sibling_path, localPath = None\<rparr>))
   \<and> (IsValidGamePath w (GetGameType w g) (GetMasterFilename w g) sibling_path \<and>
        recognised_id g \<and> answered w (FindGameInstalls w registry g) \<longrightarrow>
        (\<exists>registryInstall.
           outcome (FindGameInstalls w registry g) =
             Inr (\<lparr>gameId = g, source = four_way w g sibling_path,
                    installPath = sibling_path, localPath = None\<rparr>
                  # option_to_list registryInstall)))"
proof (intro conjI impI)
  assume n: "\<not> IsValidGamePath w (GetGameType w g) (GetMasterFilename w g) sibling_path"
  from sibling_scan_rejected [OF n]
  show "outcome (FindSiblingGameInstall w g) = Inr None"
    and "probes (FindSiblingGameInstall w g) = []"
    by (simp_all add: outcome_def probes_def)
  then show "outcome (FindGameInstalls w registry g) =
        (case outcome (FindGameInstallInRegistry w registry g) of
           Inl e \<Rightarrow> Inl e
         | Inr registryInstall \<Rightarrow> Inr (option_to_list registryInstall))"
    by (simp add: FindGameInstalls_def outcome_bind outcome_ret option_to_list_def
        split: sum.splits)
next
  assume "IsValidGamePath w (GetGameType w g) (GetMasterFilename w g) sibling_path \<and>
        recognised_id g \<and> answered w (FindSiblingGameInstall w g)"
  then show "outcome (FindSiblingGameInstall w g) =
          Inr (Some \<lparr>gameId = g, source = four_way w g sibling_path,
                     installPath = sibling_path, localPath = None\<rparr>)"
    by (simp add: sibling_scan_accepted)
next
  assume h: "IsValidGamePath w (GetGameType w g) (GetMasterFilename w g) sibling_path \<and>
        recognised_id g \<and> answered w (FindGameInstalls w registry g)"
  then have known: "recognised_id g" and a: "answered w (FindGameInstalls w registry g)"
    by simp_all
  note parts = FindGameInstalls_answered_parts [OF a known]
  from h parts(1) have s: "outcome (FindSiblingGameInstall w g) =
          Inr (Some \<lparr>gameId = g, source = four_way w g sibling_path,
                     installPath = sibling_path, localPath = None\<rparr>)"
    by (simp add: sibling_scan_accepted)
  obtain registryInstall where
    r: "outcome (FindGameInstallInRegistry w registry g) = Inr registryInstall"
    using fails_only_returns [OF registry_scan_fails_only [OF known] parts(2)] by blast
  have "outcome (FindGameInstalls w registry g) =
             Inr (\<lparr>gameId = g, source = four_way w g sibling_path,
                    installPath = sibling_path, localPath = None\<rparr>
                  # option_to_list registryInstall)"
    using s r by (simp add: FindGameInstalls_def outcome_bind outcome_ret option_to_list_def)
  then show "\<exists>registryInstall.
           outcome (FindGameInstalls w registry g) =
             Inr (\<lparr>gameId = g, source = four_way w g sibling_path,
                    installPath = sibling_path, localPath = None\<rparr>
                  # option_to_list registryInstall)"
    by blast
qed

theorem sibling_scan_keeps_given_identity_witness:
  "IsValidGamePath (world_with [[''..'', ''NehrimLauncher.exe'']])
     (GetGameType (world_with [[''..'', ''NehrimLauncher.exe'']]) GameId_nehrim)
     (GetMasterFilename (world_with [[''..'', ''NehrimLauncher.exe'']]) GameId_nehrim)
     sibling_path \<and>
   recognised_id GameId_nehrim \<and>
   answered (world_with [[''..'', ''NehrimLauncher.exe'']])
     (FindSiblingGameInstall (world_with [[''..'', ''NehrimLauncher.exe'']]) GameId_nehrim) \<and>
   outcome (FindSiblingGameInstall (world_with [[''..'', ''NehrimLauncher.exe'']])
              GameId_nehrim) =
     Inr (Some \<lparr>gameId = GameId_nehrim, source = unknown, installPath = sibling_path,
                localPath = None\<rparr>) \<and>
   \<not> IsValidGamePath (invalid_world [])
     (GetGameType (invalid_world []) GameId_nehrim)
     (GetMasterFilename (invalid_world []) GameId_nehrim) sibling_path \<and>
   FindSiblingGameInstall (invalid_world []) GameId_nehrim = ([], Inr None)"
proof -
  let ?w = "world_with [[''..'', ''NehrimLauncher.exe'']]"
  have f: "four_way ?w GameId_nehrim sibling_path = unknown"
    by (simp add: four_way_def matches_def IsGogInstall_def IsEpicInstall_def
        IsMicrosoftInstall_def outcome_ret outcome_exists_path world_with_simps
        sibling_path_def path_append_def)
  have i: "\<not> IsValidGamePath (invalid_world [])
     (GetGameType (invalid_world []) GameId_nehrim)
     (GetMasterFilename (invalid_world []) GameId_nehrim) sibling_path"
    by (simp add: invalid_world_def)
  from sibling_scan_keeps_given_identity [of ?w GameId_nehrim "registry_with []"]
  have 1: "outcome (FindSiblingGameInstall ?w GameId_nehrim) =
     Inr (Some \<lparr>gameId = GameId_nehrim, source = unknown, installPath = sibling_path,
                localPath = None\<rparr>)"
    using f by (simp add: world_with_simps world_with_answered)
  from sibling_scan_keeps_given_identity [of "invalid_world []" GameId_nehrim
      "registry_with []"] i
  have 2: "FindSiblingGameInstall (invalid_world []) GameId_nehrim = ([], Inr None)"
    by (simp add: outcome_def probes_def prod_eq_iff)
  show ?thesis using i 1 2 by (simp add: world_with_simps world_with_answered)
qed

text \<open>
  The claim as first stated, that the sibling scan resolves the identity from the family
  and the path, fails where the parent directory holds the launcher of Nehrim and the
  scan is asked for Oblivion: the resolver answers nehrim, the scan emits tes4.
\<close>

theorem sibling_scan_skips_variant_check:
  "IsValidGamePath (world_with [[''..'', ''NehrimLauncher.exe'']])
     (GetGameType (world_with [[''..'', ''NehrimLauncher.exe'']]) GameId_tes4)
     (GetMasterFilename (world_with [[''..'', ''NehrimLauncher.exe'']]) GameId_tes4)
     sibling_path \<and>
   outcome (DetectGameId (world_with [[''..'', ''NehrimLauncher.exe'']])
              (GetGameType (world_with [[''..'', ''NehrimLauncher.exe'']]) GameId_tes4)
              sibling_path) = Inr GameId_nehrim \<and>
   outcome (FindSiblingGameInstall (world_with [[''..'', ''NehrimLauncher.exe'']])
              GameId_tes4) =
     Inr (Some \<lparr>gameId = GameId_tes4, source = unknown, installPath = sibling_path,
                localPath = None\<rparr>)"
proof -
  let ?w = "world_with [[''..'', ''NehrimLauncher.exe'']]"
  have d: "outcome (DetectGameId ?w (GetGameType ?w GameId_tes4) sibling_path)
      = Inr GameId_nehrim"
    by (simp add: outcome_bind outcome_ret outcome_exists_path world_with_simps
        sibling_path_def path_append_def)
  have f: "four_way ?w GameId_tes4 sibling_path = unknown"
    by (simp add: four_way_def matches_def IsGogInstall_def IsEpicInstall_def
        IsMicrosoftInstall_def outcome_bind outcome_ret outcome_exists_path world_with_simps
        sibling_path_def path_append_def)
  have s: "outcome (FindSiblingGameInstall ?w GameId_tes4) =
     Inr (Some \<lparr>gameId = GameId_tes4, source = unknown, installPath = sibling_path,
                localPath = None\<rparr>)"
    using sibling_scan_accepted [of ?w GameId_tes4] f
    by (simp add: world_with_simps world_with_answered)
  show ?thesis using d s by (simp add: world_with_simps)
qed

subsection \<open>The identity resolver\<close>

text \<open>
  C9. For the families tes4, tes5 and tes5se \<open>DetectGameId\<close> returns the variant
  (nehrim, enderal, enderalse) exactly when the launcher executable of the variant
  exists in the install path, and the base identity when it does not (where the status
  of the launcher cannot be read it returns neither: it throws). Each of the other six
  families gives its one identity without looking at the path.
\<close>

theorem DetectGameId_variant_markers:
  "outcome (DetectGameId w GameType_tes4 dir) =
     (case fs w (path_append dir ''NehrimLauncher.exe'') of
        status_present \<Rightarrow> Inr GameId_nehrim
      | status_absent \<Rightarrow> Inr GameId_tes4
      | status_error what \<Rightarrow> Inl (filesystem_error what))
   \<and> outcome (DetectGameId w GameType_tes5 dir) =
     (case fs w (path_append dir ''Enderal Launcher.exe'') of
        status_present \<Rightarrow> Inr GameId_enderal
      | status_absent \<Rightarrow> Inr GameId_tes5
      | status_error what \<Rightarrow> Inl (filesystem_error what))
   \<and> outcome (DetectGameId w GameType_tes5se dir) =
     (case fs w (path_append dir ''Enderal Launcher.exe'') of
        status_present \<Rightarrow> Inr GameId_enderalse
      | status_absent \<Rightarrow> Inr GameId_tes5se
      | status_error what \<Rightarrow> Inl (filesystem_error what))
   \<and> DetectGameId w GameType_tes3 dir = ([], Inr GameId_tes3)
   \<and> DetectGameId w GameType_tes5vr dir = ([], Inr GameId_tes5vr)
   \<and> DetectGameId w GameType_fo3 dir = ([], Inr GameId_fo3)
   \<and> DetectGameId w GameType_fonv dir = ([], Inr GameId_fonv)
   \<and> DetectGameId w GameType_fo4 dir = ([], Inr GameId_fo4)
   \<and> DetectGameId w GameType_fo4vr dir = ([], Inr GameId_fo4vr)"
proof -
  have variant: "outcome (bind (exists_path w (path_append dir marker))
                   (\<lambda>found. ret (if found then a else b))) =
                 (case fs w (path_append dir marker) of
                    status_present \<Rightarrow> Inr a
                  | status_absent \<Rightarrow> Inr b
                  | status_error what \<Rightarrow> Inl (filesystem_error what))"
    for marker and a b :: GameId
    by (cases "fs w (path_append dir marker)")
      (simp_all add: outcome_bind outcome_ret outcome_exists_path)
  show ?thesis by (simp add: variant) (simp add: ret_def)
qed

theorem DetectGameId_variant_markers_witness:
  "outcome (DetectGameId (world_with [[''..'', ''Enderal Launcher.exe'']]) GameType_tes5se
              sibling_path) = Inr GameId_enderalse
   \<and> outcome (DetectGameId (world_with [[''..'', ''Enderal Launcher.exe'']]) GameType_tes4
              sibling_path) = Inr GameId_tes4"
  using DetectGameId_variant_markers [of "world_with [[''..'', ''Enderal Launcher.exe'']]"
      sibling_path]
  by (simp add: world_with_simps sibling_path_def path_append_def)

subsection \<open>Unrecognised enumerators\<close>

text \<open>
  C10, amended. The identity resolver, the Steam classifier and the registry-key table
  throw a \<open>std::logic_error\<close> ("Unrecognised game ID") exactly when their argument is none
  of the enumerators they name. On a recognised argument the registry-key table always
  returns; the resolver and the Steam classifier return when every existence check they
  make is answered, and otherwise throw the \<open>filesystem_error\<close> of the check that failed,
  never a logic error.
\<close>

theorem unrecognised_enumerator_throws:
  "((\<exists>what. outcome (DetectGameId w t dir) = Inl (logic_error what))
      = (\<not> recognised_type t))
   \<and> ((outcome (DetectGameId w t dir) = Inl (logic_error ''Unrecognised game ID''))
        = (\<not> recognised_type t))
   \<and> (recognised_type t \<longrightarrow>
        (if answered w (DetectGameId w t dir)
         then \<exists>g. outcome (DetectGameId w t dir) = Inr g
         else \<exists>what. outcome (DetectGameId w t dir) = Inl (filesystem_error what)))
   \<and> ((\<exists>what. outcome (IsSteamInstall w g dir) = Inl (logic_error what))
        = (\<not> recognised_id g))
   \<and> ((outcome (IsSteamInstall w g dir) = Inl (logic_error ''Unrecognised game ID''))
        = (\<not> recognised_id g))
   \<and> (recognised_id g \<longrightarrow>
        (if answered w (IsSteamInstall w g dir)
         then \<exists>b. outcome (IsSteamInstall w g dir) = Inr b
         else \<exists>what. outcome (IsSteamInstall w g dir) = Inl (filesystem_error what)))
   \<and> ((\<exists>e. GetRegistryValue g = Inl e) = (\<not> recognised_id g))
   \<and> ((GetRegistryValue g = Inl (logic_error ''Unrecognised game ID''))
        = (\<not> recognised_id g))"
proof -
  have d: "if answered w (DetectGameId w t dir)
         then \<exists>g. outcome (DetectGameId w t dir) = Inr g
         else \<exists>what. outcome (DetectGameId w t dir) = Inl (filesystem_error what)"
    if "recognised_type t"
    using DetectGameId_fails_only [OF that, of w dir]
    by (simp add: fails_only_in_probes_def)
  have s: "if answered w (IsSteamInstall w g dir)
         then \<exists>b. outcome (IsSteamInstall w g dir) = Inr b
         else \<exists>what. outcome (IsSteamInstall w g dir) = Inl (filesystem_error what)"
    if "recognised_id g"
    using IsSteamInstall_fails_only [OF that, of w dir]
    by (simp add: fails_only_in_probes_def)
  have r: "GetRegistryValue g = Inl (logic_error ''Unrecognised game ID'')"
    if "\<not> recognised_id g"
    using that by (cases g) simp_all
  have r': "\<exists>v. GetRegistryValue g = Inr v" if "recognised_id g"
    using that by (rule registry_value_exists)
  have 1: "(\<exists>what. outcome (DetectGameId w t dir) = Inl (logic_error what))
      = (\<not> recognised_type t)"
    and 2: "(outcome (DetectGameId w t dir) = Inl (logic_error ''Unrecognised game ID''))
        = (\<not> recognised_type t)"
    using d DetectGameId_throws [of t w dir]
    by (cases "recognised_type t"; auto split: if_splits)+
  have 3: "(\<exists>what. outcome (IsSteamInstall w g dir) = Inl (logic_error what))
        = (\<not> recognised_id g)"
    and 4: "(outcome (IsSteamInstall w g dir) = Inl (logic_error ''Unrecognised game ID''))
        = (\<not> recognised_id g)"
    using s IsSteamInstall_throws [of g w dir]
    by (cases "recognised_id g"; auto split: if_splits)+
  from r r' have 5: "(\<exists>e. GetRegistryValue g = Inl e) = (\<not> recognised_id g)"
    and 6: "(GetRegistryValue g = Inl (logic_error ''Unrecognised game ID''))
        = (\<not> recognised_id g)"
    by (cases "recognised_id g"; fastforce)+
  from 1 2 3 4 5 6 d s show ?thesis by blast
qed

theorem unrecognised_enumerator_throws_witness:
  "outcome (DetectGameId (world_with []) (GameType_other 99) sibling_path)
     = Inl (logic_error ''Unrecognised game ID'')
   \<and> outcome (IsSteamInstall (world_with []) (GameId_other 99) sibling_path)
     = Inl (logic_error ''Unrecognised game ID'')
   \<and> GetRegistryValue (GameId_other 99) = Inl (logic_error ''Unrecognised game ID'')
   \<and> recognised_type GameType_fo4 \<and> recognised_id GameId_fo4
   \<and> answered (world_with []) (DetectGameId (world_with []) GameType_fo4 sibling_path)
   \<and> answered (world_with []) (IsSteamInstall (world_with []) GameId_fo4 sibling_path)
   \<and> (\<exists>g. outcome (DetectGameId (world_with []) GameType_fo4 sibling_path) = Inr g)
   \<and> (\<exists>b. outcome (IsSteamInstall (world_with []) GameId_fo4 sibling_path) = Inr b)
   \<and> \<not> (\<exists>e. GetRegistryValue GameId_fo4 = Inl e)"
  using unrecognised_enumerator_throws [of "world_with []" "GameType_other 99" sibling_path
      "GameId_other 99"]
    unrecognised_enumerator_throws [of "world_with []" GameType_fo4 sibling_path GameId_fo4]
  by (simp add: world_with_answered)

text \<open>
  The claim as first stated, that they never raise on a recognised input, fails where
  the status of a marker cannot be read: asked for Oblivion in a directory whose
  \<open>installscript.vdf\<close> is a looping link, the Steam classifier throws, and so does the
  resolver where the launcher of Nehrim is one.
\<close>

theorem recognised_input_probe_failure:
  "recognised_id GameId_tes4
   \<and> outcome (IsSteamInstall (world_failing_at [] [''loop'', ''installscript.vdf''])
                GameId_tes4 [''loop''])
       = Inl (filesystem_error ''Too many levels of symbolic links'')
   \<and> recognised_type GameType_tes4
   \<and> outcome (DetectGameId (world_failing_at [] [''loop'', ''NehrimLauncher.exe''])
                GameType_tes4 [''loop''])
       = Inl (filesystem_error ''Too many levels of symbolic links'')"
  by (simp add: outcome_bind outcome_exists_path world_failing_at_simps path_append_def)

section \<open>Properties of the load-order mapper\<close>

subsection \<open>Phase 1 computes the running counts\<close>

lemma found_plugins_append:
  "found_plugins game (xs @ [x]) =
     found_plugins game xs @ (case GetPlugin game x of None \<Rightarrow> [] | Some p \<Rightarrow> [(x, p)])"
  by (simp add: found_plugins_def)

lemma running_count_append:
  "i < length found \<Longrightarrow> running_count game (found @ ys) i = running_count game found i"
  by (simp add: running_count_def nth_append)

lemma running_count_last:
  "running_count game (found @ [(x, p)]) (length found) =
     length (filter (\<lambda>(name, q). IsPluginActive game name \<and>
                       IsLightPlugin game q = IsLightPlugin game p) found)"
  by (simp add: running_count_def)

lemma counted_tuple_append:
  "i < length found \<Longrightarrow> counted_tuple game (found @ ys) i = counted_tuple game found i"
  by (simp add: counted_tuple_def running_count_append nth_append split: prod.splits)

lemma counted_tuple_last:
  "counted_tuple game (found @ [(x, p)]) (length found) =
     (p,
      if IsPluginActive game x
      then Some (word_of_nat (length (filter (\<lambda>(name, q). IsPluginActive game name \<and>
                    IsLightPlugin game q = IsLightPlugin game p) found)))
      else None,
      IsPluginActive game x)"
  by (simp add: counted_tuple_def running_count_last)

lemma collect_snoc: "collect game (xs @ [x]) = collect_step game (collect game xs) x"
  by (simp add: collect_def)

lemma collect_invariant:
  "data (collect game loadOrder) =
     map (counted_tuple game (found_plugins game loadOrder))
       [0..<length (found_plugins game loadOrder)]
   \<and> numberOfActiveLightPlugins (collect game loadOrder) =
       word_of_nat (length (filter (\<lambda>(name, q). IsPluginActive game name \<and>
                       IsLightPlugin game q = True) (found_plugins game loadOrder)))
   \<and> numberOfActiveNormalPlugins (collect game loadOrder) =
       word_of_nat (length (filter (\<lambda>(name, q). IsPluginActive game name \<and>
                       IsLightPlugin game q = False) (found_plugins game loadOrder)))"
proof (induction loadOrder rule: rev_induct)
  case Nil
  show ?case by (simp add: collect_def found_plugins_def)
next
  case (snoc x xs)
  let ?found = "found_plugins game xs"
  show ?case
  proof (cases "GetPlugin game x")
    case None
    with snoc show ?thesis
      by (simp add: collect_snoc collect_step_def found_plugins_append)
  next
    case (Some p)
    have old: "map (counted_tuple game (?found @ [(x, p)])) [0..<length ?found] =
               map (counted_tuple game ?found) [0..<length ?found]"
      by (rule map_cong) (simp_all add: counted_tuple_append)
    show ?thesis
    proof (cases "IsLightPlugin game p")
      case True
      with snoc Some old show ?thesis
        by (simp add: collect_snoc collect_step_def found_plugins_append
            counted_tuple_last Let_def)
    next
      case False
      with snoc Some old show ?thesis
        by (simp add: collect_snoc collect_step_def found_plugins_append
            counted_tuple_last Let_def)
    qed
  qed
qed

lemma collect_tuples:
  "data (collect game loadOrder) =
     map (counted_tuple game (found_plugins game loadOrder))
       [0..<length (found_plugins game loadOrder)]"
  using collect_invariant [of game loadOrder] by blast

lemma found_plugins_names:
  "map fst (found_plugins game loadOrder) =
     filter (\<lambda>name. GetPlugin game name \<noteq> None) loadOrder"
  by (induction loadOrder) (auto simp: found_plugins_def)

lemma found_plugins_plugins:
  "map snd (found_plugins game loadOrder) =
     map (\<lambda>name. the (GetPlugin game name))
       (filter (\<lambda>name. GetPlugin game name \<noteq> None) loadOrder)"
  by (induction loadOrder) (auto simp: found_plugins_def)

lemma counted_tuple_plugin:
  "fst (counted_tuple game found i) = snd (found ! i)"
  by (simp add: counted_tuple_def split: prod.splits)

lemma sint_short_of_nat: "n < 32768 \<Longrightarrow> sint (word_of_nat n :: short) = int n"
  by (simp add: signed_of_nat signed_take_bit_int_eq_self)


text \<open>
  C3, amended. Phase 1 goes through the names in load-order order and skips every name
  whose plugin lookup returns nothing, so the tuples are those of the found plugins in
  their order and may be fewer than the names. The tuple of a found plugin has an index
  exactly when the plugin is active; the index is the number of earlier found plugins
  that are active and of the same kind (light and not light counted apart, from zero),
  held in a 16-bit signed integer: it equals that number whenever the number is below
  32768.
\<close>
theorem collect_numbers_active_plugins:
  "map fst (data (collect game loadOrder)) =
     map (\<lambda>name. the (GetPlugin game name))
       (filter (\<lambda>name. GetPlugin game name \<noteq> None) loadOrder)
   \<and> length (data (collect game loadOrder)) = length (found_plugins game loadOrder)
   \<and> length (data (collect game loadOrder)) \<le> length loadOrder
   \<and> (\<forall>i < length (found_plugins game loadOrder).
         data (collect game loadOrder) ! i =
           counted_tuple game (found_plugins game loadOrder) i
         \<and> (running_count game (found_plugins game loadOrder) i < 32768 \<longrightarrow>
              index_is_count (fst (snd (data (collect game loadOrder) ! i)))
                (IsPluginActive game (fst (found_plugins game loadOrder ! i)))
                (running_count game (found_plugins game loadOrder) i)))"
proof -
  let ?found = "found_plugins game loadOrder"
  let ?data = "data (collect game loadOrder)"
  have data: "?data = map (counted_tuple game ?found) [0..<length ?found]"
    by (rule collect_tuples)
  have len: "length ?data = length ?found"
    by (simp add: data)
  have "length ?found = length (map fst ?found)" by simp
  also have "\<dots> \<le> length loadOrder"
    unfolding found_plugins_names by (rule length_filter_le)
  finally have short: "length ?data \<le> length loadOrder"
    using len by simp
  have "map fst ?data = map snd ?found"
    by (rule nth_equalityI) (simp_all add: data counted_tuple_plugin)
  then have plugins: "map fst ?data =
     map (\<lambda>name. the (GetPlugin game name))
       (filter (\<lambda>name. GetPlugin game name \<noteq> None) loadOrder)"
    by (simp add: found_plugins_plugins)
  have each: "?data ! i = counted_tuple game ?found i
         \<and> (running_count game ?found i < 32768 \<longrightarrow>
              index_is_count (fst (snd (?data ! i)))
                (IsPluginActive game (fst (?found ! i)))
                (running_count game ?found i))"
    if i: "i < length ?found" for i
  proof -
    have t: "?data ! i = counted_tuple game ?found i"
      using i by (simp add: data)
    have "index_is_count (fst (snd (counted_tuple game ?found i)))
                (IsPluginActive game (fst (?found ! i)))
                (running_count game ?found i)"
      if "running_count game ?found i < 32768"
      using that
      by (auto simp: counted_tuple_def index_is_count_def sint_short_of_nat
          split: prod.splits)
    with t show ?thesis by simp
  qed
  from plugins len short each show ?thesis by blast
qed

text \<open>The example games, unfolded.\<close>

lemma small_game_simps:
  "GetPlugin small_game name = (if name = ''b.esp'' then None else Some name)"
  "IsPluginActive small_game name = (name \<noteq> ''c.esp'')"
  "IsLightPlugin small_game p = (p = ''l1.esl'' \<or> p = ''l2.esl'')"
  by (simp_all add: small_game_def)

lemma small_game_found:
  "found_plugins small_game [''l1.esl'', ''n1.esp'', ''b.esp'', ''l2.esl'', ''c.esp'', ''n2.esp'']
     = [(''l1.esl'', ''l1.esl''), (''n1.esp'', ''n1.esp''), (''l2.esl'', ''l2.esl''),
        (''c.esp'', ''c.esp''), (''n2.esp'', ''n2.esp'')]"
  by (simp add: found_plugins_def small_game_simps)

theorem collect_numbers_active_plugins_witness:
  "data (collect small_game
     [''l1.esl'', ''n1.esp'', ''b.esp'', ''l2.esl'', ''c.esp'', ''n2.esp'']) =
     [(''l1.esl'', Some 0, True), (''n1.esp'', Some 0, True), (''l2.esl'', Some 1, True),
      (''c.esp'', None, False), (''n2.esp'', Some 1, True)]
   \<and> running_count small_game
        (found_plugins small_game
           [''l1.esl'', ''n1.esp'', ''b.esp'', ''l2.esl'', ''c.esp'', ''n2.esp'']) 4 = 1
   \<and> index_is_count (Some 1) True 1"
proof -
  let ?lo = "[''l1.esl'', ''n1.esp'', ''b.esp'', ''l2.esl'', ''c.esp'', ''n2.esp'']"
  let ?found = "[(''l1.esl'', ''l1.esl''), (''n1.esp'', ''n1.esp''), (''l2.esl'', ''l2.esl''),
        (''c.esp'', ''c.esp''), (''n2.esp'', ''n2.esp'')]"
  have c: "running_count small_game ?found 0 = 0" "running_count small_game ?found 1 = 0"
    "running_count small_game ?found 2 = 1" "running_count small_game ?found 3 = 1"
    "running_count small_game ?found 4 = 1"
    by (simp_all add: running_count_def small_game_simps)
  note numbered = collect_numbers_active_plugins [of small_game ?lo, unfolded small_game_found]
  from numbered
  have each: "\<forall>i<length ?found.
      data (collect small_game ?lo) ! i = counted_tuple small_game ?found i \<and>
      (running_count small_game ?found i < 32768 \<longrightarrow>
        index_is_count (fst (snd (data (collect small_game ?lo) ! i)))
          (IsPluginActive small_game (fst (?found ! i))) (running_count small_game ?found i))"
    by blast
  have "4 < length ?found" by simp
  from each [rule_format, OF this]
  have "running_count small_game ?found 4 < 32768 \<longrightarrow>
        index_is_count (fst (snd (data (collect small_game ?lo) ! 4)))
          (IsPluginActive small_game (fst (?found ! 4))) (running_count small_game ?found 4)"
    by (rule conjunct2)
  moreover have "running_count small_game ?found 4 < 32768"
    by (simp add: c)
  ultimately
  have "index_is_count (fst (snd (data (collect small_game ?lo) ! 4)))
          (IsPluginActive small_game (fst (?found ! 4))) (running_count small_game ?found 4)"
    by (rule mp)
  then have x: "index_is_count (fst (snd (data (collect small_game ?lo) ! 4))) True 1"
    by (simp add: c small_game_simps)
  have d: "data (collect small_game ?lo) =
     [(''l1.esl'', Some 0, True), (''n1.esp'', Some 0, True), (''l2.esl'', Some 1, True),
      (''c.esp'', None, False), (''n2.esp'', Some 1, True)]"
    by (simp add: collect_def collect_step_def small_game_simps Let_def)
  from x d have "index_is_count (Some 1) True 1" by simp
  with d c show ?thesis by (simp add: small_game_found)
qed

text \<open>
  Without the bound the claim fails: in a load order of 32769 active plugins that are
  not light, 32768 plugins are active before the last one, and its index is -32768.
\<close>

lemma crowded_found:
  "found_plugins crowded_game (replicate n x) = replicate n (x, x)"
  by (induction n) (simp_all add: found_plugins_def crowded_game_def)

lemma crowded_count:
  "i < n \<Longrightarrow> running_count crowded_game (replicate n (x, x)) i = i"
  by (simp add: running_count_def crowded_game_def)

lemma crowded_tuple:
  assumes "i < n"
  shows "data (collect crowded_game (replicate n x)) ! i = (x, Some (word_of_nat i), True)"
proof -
  have "data (collect crowded_game (replicate n x)) ! i =
        counted_tuple crowded_game (replicate n (x, x)) i"
    using assms by (simp add: collect_tuples crowded_found)
  also have "\<dots> = (x, Some (word_of_nat i), True)"
    using assms by (simp add: counted_tuple_def crowded_count) (simp add: crowded_game_def)
  finally show ?thesis .
qed

theorem collect_index_wraps_around:
  "running_count crowded_game
     (found_plugins crowded_game (replicate 32769 ''p.esp'')) 32768 = 32768
   \<and> data (collect crowded_game (replicate 32769 ''p.esp'')) ! 32768
       = (''p.esp'', Some 32768, True)
   \<and> sint (32768 :: short) = - 32768
   \<and> \<not> index_is_count
         (fst (snd (data (collect crowded_game (replicate 32769 ''p.esp'')) ! 32768)))
         (IsPluginActive crowded_game
            (fst (found_plugins crowded_game (replicate 32769 ''p.esp'') ! 32768)))
         (running_count crowded_game
            (found_plugins crowded_game (replicate 32769 ''p.esp'')) 32768)"
proof -
  have c: "running_count crowded_game
     (found_plugins crowded_game (replicate 32769 ''p.esp'')) 32768 = 32768"
    unfolding crowded_found by (rule crowded_count) simp
  have "data (collect crowded_game (replicate 32769 ''p.esp'')) ! 32768
       = (''p.esp'', Some (word_of_nat 32768), True)"
    by (rule crowded_tuple) simp
  then have t: "data (collect crowded_game (replicate 32769 ''p.esp'')) ! 32768
       = (''p.esp'', Some 32768, True)"
    by simp
  have s: "sint (32768 :: short) = - 32768"
    by simp
  have "\<not> index_is_count (Some (32768 :: short)) True 32768"
    by (simp add: index_is_count_def)
  with c t s show ?thesis
    by (simp add: crowded_game_def)
qed

subsection \<open>Phase 2 fills every slot, whatever the schedule\<close>

lemma transform_step_slots:
  "maybeMappedData (transform_step h m dat st i) =
     (maybeMappedData st)[i := fst (transformer h m (dat ! i))]"
  by (simp add: transform_step_def split: prod.splits)

lemma transform_fold:
  assumes "length (maybeMappedData st) = n"
  shows "length (maybeMappedData (foldl (transform_step h m dat) st schedule)) = n \<and>
         (\<forall>i<n. maybeMappedData (foldl (transform_step h m dat) st schedule) ! i =
            (if i \<in> set schedule then fst (transformer h m (dat ! i))
             else maybeMappedData st ! i))"
proof (induction schedule rule: rev_induct)
  case Nil
  show ?case using assms by simp
next
  case (snoc k ks)
  let ?before = "maybeMappedData (foldl (transform_step h m dat) st ks)"
  let ?after = "maybeMappedData (foldl (transform_step h m dat) st (ks @ [k]))"
  from snoc have len: "length ?before = n"
    and old: "\<And>i. i < n \<Longrightarrow> ?before ! i =
            (if i \<in> set ks then fst (transformer h m (dat ! i))
             else maybeMappedData st ! i)"
    by simp_all
  have step: "?after = ?before[k := fst (transformer h m (dat ! k))]"
    by (simp add: transform_step_slots)
  have "?after ! i =
            (if i \<in> set (ks @ [k]) then fst (transformer h m (dat ! i))
             else maybeMappedData st ! i)" if "i < n" for i
  proof (cases "i = k")
    case True
    with that len show ?thesis unfolding step by simp
  next
    case False
    with that old [OF that] show ?thesis unfolding step by simp
  qed
  moreover have "length ?after = n" using len unfolding step by simp
  ultimately show ?case by blast
qed

lemma valid_schedule_set: "valid_schedule n schedule \<Longrightarrow> set schedule = {..<n}"
proof -
  assume "valid_schedule n schedule"
  then have "set schedule = set [0..<n]"
    unfolding valid_schedule_def by (rule mset_eq_setD)
  then show ?thesis by (simp add: atLeast0LessThan)
qed

lemma valid_schedule_in_order: "valid_schedule n [0..<n]"
  by (simp add: valid_schedule_def)

lemma transform_par_slots:
  assumes "valid_schedule (length dat) schedule"
  shows "maybeMappedData (transform_par h m t0 schedule dat) =
           map (\<lambda>t. fst (transformer h m t)) dat"
proof (rule nth_equalityI)
  let ?init = "\<lparr>maybeMappedData = replicate (length dat) (MappedData t0), logged = []\<rparr>"
  have len: "length (maybeMappedData ?init) = length dat" by simp
  note fold = transform_fold [OF len, of h m dat schedule]
  from fold show "length (maybeMappedData (transform_par h m t0 schedule dat)) =
      length (map (\<lambda>t. fst (transformer h m t)) dat)"
    by (simp add: transform_par_def)
  fix i
  assume "i < length (maybeMappedData (transform_par h m t0 schedule dat))"
  with fold have i: "i < length dat" by (simp add: transform_par_def)
  with valid_schedule_set [OF assms] have "i \<in> set schedule" by simp
  with fold i show "maybeMappedData (transform_par h m t0 schedule dat) ! i =
      map (\<lambda>t. fst (transformer h m t)) dat ! i"
    by (simp add: transform_par_def)
qed

subsection \<open>Phase 3 reports the first failure\<close>

lemma transformer_slot:
  "fst (transformer h m t) =
     (case apply_mapper m t of Inl what \<Rightarrow> ErrorMessage what | Inr v \<Rightarrow> MappedData v)"
  by (simp add: transformer_def apply_mapper_def split: prod.splits sum.splits)

lemma failures_Cons:
  "failures m (t # ts) =
     (case apply_mapper m t of Inl what \<Rightarrow> what # failures m ts | Inr v \<Rightarrow> failures m ts)"
  by (simp add: failures_def split: sum.splits)

lemma successes_Cons:
  "successes m (t # ts) =
     (case apply_mapper m t of Inl what \<Rightarrow> successes m ts | Inr v \<Rightarrow> v # successes m ts)"
  by (simp add: successes_def split: sum.splits)

lemma aggregate_slots:
  "aggregate (map (\<lambda>t. fst (transformer h m t)) dat) acc =
     (case failures m dat of
        [] \<Rightarrow> Inr (acc @ successes m dat)
      | what # rest \<Rightarrow> Inl (runtime_error what))"
proof (induction dat arbitrary: acc)
  case Nil
  show ?case by (simp add: failures_def successes_def)
next
  case (Cons t ts)
  show ?case
  proof (cases "apply_mapper m t")
    case (Inl what)
    then show ?thesis by (simp add: transformer_slot failures_Cons)
  next
    case (Inr v)
    with Cons [of "acc @ [v]"] show ?thesis
      by (simp add: transformer_slot failures_Cons successes_Cons split: list.splits)
  qed
qed

lemma map_in_order_failures:
  "map_in_order m dat =
     (case failures m dat of
        [] \<Rightarrow> Inr (successes m dat)
      | what # rest \<Rightarrow> Inl (runtime_error what))"
proof (induction dat)
  case Nil
  show ?case by (simp add: failures_def successes_def)
next
  case (Cons t ts)
  then show ?case
    by (cases "apply_mapper m t")
      (auto simp: failures_Cons successes_Cons apply_mapper_def split: list.splits)
qed

lemma MapFromLoadOrderData_outcome:
  assumes "valid_schedule (length (data (collect game loadOrder))) schedule"
  shows "snd (MapFromLoadOrderData h t0 schedule game loadOrder m) =
     (case failures m (data (collect game loadOrder)) of
        [] \<Rightarrow> Inr (successes m (data (collect game loadOrder)))
      | what # rest \<Rightarrow> Inl (runtime_error what))"
  using aggregate_slots [of h m "data (collect game loadOrder)" "[]"]
  by (simp add: MapFromLoadOrderData_def Let_def transform_par_slots [OF assms]
      split: list.splits)

lemma failures_after_successes:
  assumes "\<forall>u\<in>set pre. \<exists>v. apply_mapper m u = Inr v"
  shows "failures m (pre @ post) = failures m post"
  using assms by (induction pre) (auto simp: failures_def)

lemma failures_none:
  assumes "\<forall>u\<in>set dat. \<exists>v. apply_mapper m u = Inr v"
  shows "failures m dat = []" and "map Inr (successes m dat) = map (apply_mapper m) dat"
  using assms by (induction dat) (auto simp: failures_def successes_def)

lemma first_failure_exists:
  assumes "\<exists>u\<in>set dat. \<exists>what. apply_mapper m u = Inl what"
  shows "\<exists>pre t post what. dat = pre @ t # post \<and>
           (\<forall>u\<in>set pre. \<exists>v. apply_mapper m u = Inr v) \<and> apply_mapper m t = Inl what"
proof -
  from assms obtain u what where u: "u \<in> set dat" "apply_mapper m u = Inl what"
    by blast
  then have "isl (apply_mapper m u)" by simp
  with u have "\<exists>u\<in>set dat. isl (apply_mapper m u)" by blast
  from split_list_first_prop [OF this]
  obtain pre t post where d: "dat = pre @ t # post" and t: "isl (apply_mapper m t)"
    and p: "\<forall>u\<in>set pre. \<not> isl (apply_mapper m u)"
    by blast
  from t obtain what where "apply_mapper m t = Inl what" by (cases "apply_mapper m t") auto
  moreover from p have "\<forall>u\<in>set pre. \<exists>v. apply_mapper m u = Inr v"
    by (metis sum.collapse(2))
  ultimately show ?thesis using d by blast
qed

text \<open>
  C4. Under any schedule of phase 2: when at least one application of the mapper fails,
  \<open>MapFromLoadOrderData\<close> throws one \<open>std::runtime_error\<close> whose message is that of the
  first failing tuple in phase-1 order (every tuple before it succeeds); when every
  application succeeds it returns the values of all of them, in that order.
\<close>
theorem MapFromLoadOrderData_first_failure:
  assumes "valid_schedule (length (data (collect game loadOrder))) schedule"
  shows "((\<exists>u\<in>set (data (collect game loadOrder)). \<exists>what. apply_mapper mapper u = Inl what)
          \<longrightarrow>
          (\<exists>pre t post what.
             data (collect game loadOrder) = pre @ t # post \<and>
             (\<forall>u\<in>set pre. \<exists>v. apply_mapper mapper u = Inr v) \<and>
             apply_mapper mapper t = Inl what \<and>
             snd (MapFromLoadOrderData hasLogger t0 schedule game loadOrder mapper) =
               Inl (runtime_error what)))
         \<and> ((\<forall>u\<in>set (data (collect game loadOrder)). \<exists>v. apply_mapper mapper u = Inr v)
          \<longrightarrow>
          snd (MapFromLoadOrderData hasLogger t0 schedule game loadOrder mapper) =
            Inr (successes mapper (data (collect game loadOrder))) \<and>
          map Inr (successes mapper (data (collect game loadOrder))) =
            map (apply_mapper mapper) (data (collect game loadOrder)))"
proof (intro conjI impI)
  let ?dat = "data (collect game loadOrder)"
  note result = MapFromLoadOrderData_outcome [OF assms, of hasLogger t0 mapper]
  {
    assume "\<exists>u\<in>set ?dat. \<exists>what. apply_mapper mapper u = Inl what"
    from first_failure_exists [OF this]
    obtain pre t post what where d: "?dat = pre @ t # post"
      and p: "\<forall>u\<in>set pre. \<exists>v. apply_mapper mapper u = Inr v"
      and t: "apply_mapper mapper t = Inl what"
      by blast
    have "failures mapper ?dat = failures mapper (t # post)"
      unfolding d using p by (rule failures_after_successes)
    also have "\<dots> = what # failures mapper post"
      using t by (simp add: failures_Cons)
    finally have "snd (MapFromLoadOrderData hasLogger t0 schedule game loadOrder mapper) =
               Inl (runtime_error what)"
      using result by simp
    with d p t show "\<exists>pre t post what.
             ?dat = pre @ t # post \<and>
             (\<forall>u\<in>set pre. \<exists>v. apply_mapper mapper u = Inr v) \<and>
             apply_mapper mapper t = Inl what \<and>
             snd (MapFromLoadOrderData hasLogger t0 schedule game loadOrder mapper) =
               Inl (runtime_error what)"
      by blast
  }
  {
    assume a: "\<forall>u\<in>set ?dat. \<exists>v. apply_mapper mapper u = Inr v"
    from failures_none(1) [OF a] result
    show "snd (MapFromLoadOrderData hasLogger t0 schedule game loadOrder mapper) =
            Inr (successes mapper ?dat)"
      by simp
    from failures_none(2) [OF a]
    show "map Inr (successes mapper ?dat) = map (apply_mapper mapper) ?dat" .
  }
qed

lemma small_game_tuples:
  "data (collect small_game [''a.esp'', ''bad.esp'', ''b.esp'', ''worse.esp'']) =
     [(''a.esp'', Some 0, True), (''bad.esp'', Some 1, True), (''worse.esp'', Some 2, True)]"
  "data (collect small_game [''a.esp'', ''b.esp'', ''c.esp'', ''dd.esp'']) =
     [(''a.esp'', Some 0, True), (''c.esp'', None, False), (''dd.esp'', Some 1, True)]"
  by (simp_all add: collect_def collect_step_def small_game_simps Let_def)

lemma schedule_2_0_1: "valid_schedule 3 [2, 0, 1]"
  by (simp add: valid_schedule_def upt_rec)

theorem MapFromLoadOrderData_first_failure_witness:
  "valid_schedule
     (length (data (collect small_game [''a.esp'', ''bad.esp'', ''b.esp'', ''worse.esp''])))
     [2, 0, 1]
   \<and> apply_mapper name_length_mapper (''a.esp'', Some 0, True) = Inr 5
   \<and> apply_mapper name_length_mapper (''bad.esp'', Some 1, True) = Inl ''bad.esp''
   \<and> apply_mapper name_length_mapper (''worse.esp'', Some 2, True) = Inl ''worse.esp''
   \<and> snd (MapFromLoadOrderData True 0 [2, 0, 1] small_game
             [''a.esp'', ''bad.esp'', ''b.esp'', ''worse.esp''] name_length_mapper) =
       Inl (runtime_error ''bad.esp'')"
proof -
  let ?lo = "[''a.esp'', ''bad.esp'', ''b.esp'', ''worse.esp'']"
  have l: "length (data (collect small_game ?lo)) = 3"
    by (simp add: small_game_tuples)
  have v: "valid_schedule (length (data (collect small_game ?lo))) [2, 0, 1]"
    unfolding l by (rule schedule_2_0_1)
  have m: "apply_mapper name_length_mapper (''a.esp'', Some 0, True) = Inr 5"
    "apply_mapper name_length_mapper (''bad.esp'', Some 1, True) = Inl ''bad.esp''"
    "apply_mapper name_length_mapper (''worse.esp'', Some 2, True) = Inl ''worse.esp''"
    by (simp_all add: apply_mapper_def name_length_mapper_def)
  from MapFromLoadOrderData_first_failure [OF v, of name_length_mapper True 0]
  obtain pre t post what where d: "data (collect small_game ?lo) = pre @ t # post"
    and p: "\<forall>u\<in>set pre. \<exists>v. apply_mapper name_length_mapper u = Inr v"
    and t: "apply_mapper name_length_mapper t = Inl what"
    and r: "snd (MapFromLoadOrderData True 0 [2, 0, 1] small_game ?lo name_length_mapper) =
               Inl (runtime_error what)"
    using m by (auto simp: small_game_tuples)
  from d have "pre = [] \<or> pre = [(''a.esp'', Some 0, True)] \<or>
      (\<exists>rest. pre = (''a.esp'', Some 0, True) # (''bad.esp'', Some 1, True) # rest)"
    by (auto simp: small_game_tuples Cons_eq_append_conv append_eq_Cons_conv)
  with d p t m have "what = ''bad.esp''"
    by (auto simp: small_game_tuples)
  with r v m show ?thesis by simp
qed

subsection \<open>The result does not depend on the schedule\<close>

text \<open>
  C5. Under any schedule of phase 2 the output slots are, position by position, the
  transformer applied to the phase-1 tuples, so the result of \<open>MapFromLoadOrderData\<close>
  is that of the in-order schedule, and is the sequential in-order application of the
  mapper to the phase-1 tuples.
\<close>
theorem MapFromLoadOrderData_schedule_independent:
  assumes "valid_schedule (length (data (collect game loadOrder))) schedule"
  shows "maybeMappedData
           (transform_par hasLogger mapper t0 schedule (data (collect game loadOrder))) =
           map (\<lambda>t. fst (transformer hasLogger mapper t)) (data (collect game loadOrder))
         \<and> snd (MapFromLoadOrderData hasLogger t0 schedule game loadOrder mapper) =
             snd (MapFromLoadOrderData hasLogger t0
                    [0..<length (data (collect game loadOrder))] game loadOrder mapper)
         \<and> snd (MapFromLoadOrderData hasLogger t0 schedule game loadOrder mapper) =
             map_in_order mapper (data (collect game loadOrder))"
proof -
  let ?dat = "data (collect game loadOrder)"
  have slots: "maybeMappedData (transform_par hasLogger mapper t0 schedule ?dat) =
           map (\<lambda>t. fst (transformer hasLogger mapper t)) ?dat"
    using assms by (rule transform_par_slots)
  have any: "snd (MapFromLoadOrderData hasLogger t0 schedule game loadOrder mapper) =
      map_in_order mapper ?dat"
    by (simp add: MapFromLoadOrderData_outcome [OF assms] map_in_order_failures)
  have "snd (MapFromLoadOrderData hasLogger t0 [0..<length ?dat] game loadOrder mapper) =
      map_in_order mapper ?dat"
    by (simp add: MapFromLoadOrderData_outcome [OF valid_schedule_in_order]
        map_in_order_failures)
  with slots any show ?thesis by simp
qed

theorem MapFromLoadOrderData_schedule_independent_witness:
  "valid_schedule
     (length (data (collect small_game [''a.esp'', ''b.esp'', ''c.esp'', ''dd.esp''])))
     [2, 0, 1]
   \<and> snd (MapFromLoadOrderData False 0 [2, 0, 1] small_game
             [''a.esp'', ''b.esp'', ''c.esp'', ''dd.esp''] name_length_mapper) = Inr [5, 5, 6]
   \<and> maybeMappedData (transform_par False name_length_mapper 0 [2, 0, 1]
        (data (collect small_game [''a.esp'', ''b.esp'', ''c.esp'', ''dd.esp'']))) =
       [MappedData 5, MappedData 5, MappedData 6]"
proof -
  let ?lo = "[''a.esp'', ''b.esp'', ''c.esp'', ''dd.esp'']"
  have l: "length (data (collect small_game ?lo)) = 3"
    by (simp add: small_game_tuples)
  have v: "valid_schedule (length (data (collect small_game ?lo))) [2, 0, 1]"
    unfolding l by (rule schedule_2_0_1)
  have m: "map_in_order name_length_mapper
             [(''a.esp'', Some 0, True), (''c.esp'', None, False), (''dd.esp'', Some 1, True)]
           = Inr [5, 5, 6]"
    by (simp add: apply_mapper_def name_length_mapper_def)
  have f: "map (\<lambda>t. fst (transformer False name_length_mapper t))
             [(''a.esp'', Some 0, True), (''c.esp'', None, False), (''dd.esp'', Some 1, True)]
           = [MappedData 5, MappedData 5, MappedData 6]"
    by (simp add: transformer_def name_length_mapper_def)
  note independent =
    MapFromLoadOrderData_schedule_independent [OF v, of False name_length_mapper 0]
  from independent
  have "snd (MapFromLoadOrderData False 0 [2, 0, 1] small_game ?lo name_length_mapper) =
      map_in_order name_length_mapper (data (collect small_game ?lo))"
    by blast
  moreover have "map_in_order name_length_mapper (data (collect small_game ?lo))
      = Inr [5, 5, 6]"
    unfolding small_game_tuples by (rule m)
  ultimately
  have r: "snd (MapFromLoadOrderData False 0 [2, 0, 1] small_game ?lo name_length_mapper) =
      Inr [5, 5, 6]"
    by (rule trans)
  from independent
  have "maybeMappedData (transform_par False name_length_mapper 0 [2, 0, 1]
        (data (collect small_game ?lo))) =
      map (\<lambda>t. fst (transformer False name_length_mapper t)) (data (collect small_game ?lo))"
    by blast
  moreover have "map (\<lambda>t. fst (transformer False name_length_mapper t))
      (data (collect small_game ?lo)) = [MappedData 5, MappedData 5, MappedData 6]"
    unfolding small_game_tuples by (rule f)
  ultimately
  have s: "maybeMappedData (transform_par False name_length_mapper 0 [2, 0, 1]
        (data (collect small_game ?lo))) = [MappedData 5, MappedData 5, MappedData 6]"
    by (rule trans)
  from v r s show ?thesis by blast
qed

end
